theory Spec2Isabelle
  imports Main "HOL-Library.Sublist"
begin

text \<open>
  A shallow embedding of the package \<^verbatim>\<open>@xmer/rss-reader\<close>: the retry handler, the
  browser manager and the browser pool, the feed fetcher, the title cleaner and the link
  extractor, and the reader that drives them. Each source function is a HOL function
  of the same name. A call that throws, or a promise that is rejected, returns \<open>Inl\<close>
  of the thrown value; mutable objects are passed in and returned; what lies outside
  the package (the browser engine, the timer, the HTML and XML parsers, regular
  expressions, the clock) is a parameter or a field of the \<open>engine\<close> record. The
  definitions come first, the properties after them.
\<close>

section \<open>Thrown values and the error hierarchy\<close>

text \<open>
  \<^verbatim>\<open>src/errors/RssReaderErrors.ts\<close>. A JavaScript \<^verbatim>\<open>throw\<close> (or a rejected promise)
  carries any value. The classes of the package are one constructor each, with their
  public fields in declaration order; \<open>Error\<close> is a plain \<^verbatim>\<open>new Error(message)\<close>;
  \<open>NonError s\<close> is a thrown value that is not an instance of \<^verbatim>\<open>Error\<close>, given by
  the text \<^verbatim>\<open>String(value)\<close> yields for it.
\<close>

datatype thrown =
    Error string
  | FeedFetchError string string "thrown option"
  | ParseError string "string option" "string option" "thrown option"
  | BrowserError string string "thrown option"
  | InvalidFeedError string string "thrown option"
  | NonError string

text \<open>\<^verbatim>\<open>error instanceof Error\<close>\<close>

fun instanceofError :: "thrown \<Rightarrow> bool" where
  "instanceofError (NonError s) = False"
| "instanceofError e = True"

text \<open>\<^verbatim>\<open>error instanceof ParseError\<close>\<close>

fun instanceofParseError :: "thrown \<Rightarrow> bool" where
  "instanceofParseError (ParseError m u t c) = True"
| "instanceofParseError e = False"

text \<open>\<^verbatim>\<open>error instanceof FeedFetchError\<close>\<close>

fun instanceofFeedFetchError :: "thrown \<Rightarrow> bool" where
  "instanceofFeedFetchError (FeedFetchError m u c) = True"
| "instanceofFeedFetchError e = False"

text \<open>\<^verbatim>\<open>error instanceof BrowserError\<close>\<close>

fun instanceofBrowserError :: "thrown \<Rightarrow> bool" where
  "instanceofBrowserError (BrowserError m operation c) = True"
| "instanceofBrowserError e = False"

text \<open>The idiom \<^verbatim>\<open>error instanceof Error ? error.message : String(error)\<close>.\<close>

fun errorMessage :: "thrown \<Rightarrow> string" where
  "errorMessage (Error m) = m"
| "errorMessage (FeedFetchError m u c) = m"
| "errorMessage (ParseError m u t c) = m"
| "errorMessage (BrowserError m operation c) = m"
| "errorMessage (InvalidFeedError m u c) = m"
| "errorMessage (NonError s) = s"

text \<open>The idiom \<^verbatim>\<open>error instanceof Error ? error : undefined\<close>, used for \<^verbatim>\<open>cause\<close>.\<close>

definition causeOf :: "thrown \<Rightarrow> thrown option" where
  "causeOf e = (if instanceofError e then Some e else None)"

section \<open>Items\<close>

text \<open>
  \<^verbatim>\<open>RssItem\<close> of \<^verbatim>\<open>src/types\<close>. \<open>publishedAt\<close> is the time value of the date in
  milliseconds; \<open>metadata\<close> keeps the keys and a rendering of each value.
\<close>

record RssItem =
  title :: string
  link :: string
  publishedAt :: int
  links :: "string list"
  itemId :: "string option"
  rawContent :: "string option"
  metadata :: "(string \<times> string) list option"

section \<open>Deduplication (RssReader.deduplicateItems)\<close>

text \<open>
  The loop \<^verbatim>\<open>for (const item of items)\<close> with its two locals: \<open>seen\<close>, the set of
  links met so far, and \<open>deduplicated\<close>, the items pushed so far.
\<close>

fun deduplicateItems_loop :: "RssItem list \<Rightarrow> string set \<Rightarrow> RssItem list \<Rightarrow> RssItem list" where
  "deduplicateItems_loop [] seen deduplicated = deduplicated"
| "deduplicateItems_loop (item # items) seen deduplicated =
     (if link item \<notin> seen
      then deduplicateItems_loop items (insert (link item) seen) (deduplicated @ [item])
      else deduplicateItems_loop items seen deduplicated)"

definition deduplicateItems :: "RssItem list \<Rightarrow> RssItem list" where
  "deduplicateItems items = deduplicateItems_loop items {} []"

text \<open>
  The positions of a list that hold the first occurrence of their key: no earlier
  position has the same key. Items are keyed by their link.
\<close>

definition firstOccurrence :: "('a \<Rightarrow> 'k) \<Rightarrow> 'a list \<Rightarrow> nat \<Rightarrow> bool" where
  "firstOccurrence key xs i = (\<forall>j < i. key (xs ! j) \<noteq> key (xs ! i))"

section \<open>Per-entry parsing (RssReader.parseItems)\<close>

text \<open>
  \<^verbatim>\<open>RawRssItem\<close>: an entry as the XML parser hands it over. Each standard field is
  absent or an array of strings; \<open>raw_extra\<close> holds every other key.
\<close>

record RawRssItem =
  raw_title :: "string list option"
  raw_link :: "string list option"
  raw_pubDate :: "string list option"
  raw_content_encoded :: "string list option"
  raw_description :: "string list option"
  raw_extra :: "(string \<times> string) list"

text \<open>
  \<^verbatim>\<open>Array.isArray(rawItem.title) ? rawItem.title[0] : 'Unknown'\<close>; the first element of
  an empty array is \<^verbatim>\<open>undefined\<close>.
\<close>

definition rawTitleOrUnknown :: "RawRssItem \<Rightarrow> string option" where
  "rawTitleOrUnknown rawItem =
     (case raw_title rawItem of
        None \<Rightarrow> Some ''Unknown''
      | Some [] \<Rightarrow> None
      | Some (t # ts) \<Rightarrow> Some t)"

text \<open>
  The \<^verbatim>\<open>catch\<close> block of the loop: what is pushed on \<open>errors\<close> for a thrown value.
\<close>

definition collectedError :: "string \<Rightarrow> RawRssItem \<Rightarrow> thrown \<Rightarrow> thrown" where
  "collectedError feedUrl rawItem error =
     (if instanceofParseError error then error
      else ParseError (''Failed to parse item: '' @ errorMessage error)
             (Some feedUrl) (rawTitleOrUnknown rawItem) (causeOf error))"

text \<open>
  The \<^verbatim>\<open>try\<close> block for one entry. \<open>parseItem\<close> is \<^verbatim>\<open>ItemParser.parseItem\<close>
  and \<open>validate\<close> is \<^verbatim>\<open>ItemValidator.validate\<close> (\<open>Some e\<close> when it throws \<open>e\<close>);
  both are parameters, as the reader receives them as collaborators.
\<close>

definition entryOutcome ::
  "(RawRssItem \<Rightarrow> string \<Rightarrow> thrown + RssItem) \<Rightarrow> (RssItem \<Rightarrow> thrown option)
     \<Rightarrow> string \<Rightarrow> RawRssItem \<Rightarrow> thrown + RssItem" where
  "entryOutcome parseItem validate feedUrl rawItem =
     (case parseItem rawItem feedUrl of
        Inl error \<Rightarrow> Inl (collectedError feedUrl rawItem error)
      | Inr item \<Rightarrow>
          (case validate item of
             Some error \<Rightarrow> Inl (collectedError feedUrl rawItem error)
           | None \<Rightarrow> Inr item))"

fun parseItems_loop ::
  "(RawRssItem \<Rightarrow> string \<Rightarrow> thrown + RssItem) \<Rightarrow> (RssItem \<Rightarrow> thrown option)
     \<Rightarrow> string \<Rightarrow> RawRssItem list \<Rightarrow> RssItem list \<Rightarrow> thrown list
     \<Rightarrow> RssItem list \<times> thrown list" where
  "parseItems_loop parseItem validate feedUrl [] items errors = (items, errors)"
| "parseItems_loop parseItem validate feedUrl (rawItem # rawItems) items errors =
     (case entryOutcome parseItem validate feedUrl rawItem of
        Inr item \<Rightarrow> parseItems_loop parseItem validate feedUrl rawItems (items @ [item]) errors
      | Inl error \<Rightarrow> parseItems_loop parseItem validate feedUrl rawItems items (errors @ [error]))"

definition parseItems ::
  "(RawRssItem \<Rightarrow> string \<Rightarrow> thrown + RssItem) \<Rightarrow> (RssItem \<Rightarrow> thrown option)
     \<Rightarrow> RawRssItem list \<Rightarrow> string \<Rightarrow> thrown + RssItem list" where
  "parseItems parseItem validate rawItems feedUrl =
     (case parseItems_loop parseItem validate feedUrl rawItems [] [] of
        (items, errors) \<Rightarrow>
          if length items = 0 \<and> length errors > 0 then Inl (hd errors) else Inr items)"

text \<open>
  For the statements, in the claim's words and from the two collaborators alone: the
  items of the entries that parse and pass validation, and the failures collected for
  the entries that do not (thrown by the parser, or by the validator on the parsed
  item), both in entry order.
\<close>

definition successfulItems ::
  "(RawRssItem \<Rightarrow> string \<Rightarrow> thrown + RssItem) \<Rightarrow> (RssItem \<Rightarrow> thrown option)
     \<Rightarrow> string \<Rightarrow> RawRssItem list \<Rightarrow> RssItem list" where
  "successfulItems parseItem validate feedUrl rawItems =
     concat (map (\<lambda>rawItem. case parseItem rawItem feedUrl of
                               Inl error \<Rightarrow> []
                             | Inr item \<Rightarrow> (case validate item of None \<Rightarrow> [item] | Some error \<Rightarrow> []))
               rawItems)"

definition collectedFailures ::
  "(RawRssItem \<Rightarrow> string \<Rightarrow> thrown + RssItem) \<Rightarrow> (RssItem \<Rightarrow> thrown option)
     \<Rightarrow> string \<Rightarrow> RawRssItem list \<Rightarrow> thrown list" where
  "collectedFailures parseItem validate feedUrl rawItems =
     concat (map (\<lambda>rawItem. case parseItem rawItem feedUrl of
                               Inl error \<Rightarrow> [collectedError feedUrl rawItem error]
                             | Inr item \<Rightarrow>
                                 (case validate item of
                                    None \<Rightarrow> []
                                  | Some error \<Rightarrow> [collectedError feedUrl rawItem error]))
               rawItems)"

section \<open>Retry with backoff (RetryHandler)\<close>

text \<open>
  \<^verbatim>\<open>RetryOptions\<close> after the constructor has filled in the defaults. Delays are
  whole milliseconds; \<open>maxAttempts\<close> is a whole number (the values the package
  passes), so JavaScript's fractional numbers and \<^verbatim>\<open>NaN\<close> are outside the model.
\<close>

record RetryOptions =
  initialDelay :: int
  maxDelay :: int
  backoffMultiplier :: int

definition defaultRetryOptions :: RetryOptions where
  "defaultRetryOptions = \<lparr>initialDelay = 1000, maxDelay = 30000, backoffMultiplier = 2\<rparr>"

text \<open>\<^verbatim>\<open>lastError = error instanceof Error ? error : new Error(String(error))\<close>\<close>

definition toLastError :: "thrown \<Rightarrow> thrown" where
  "toLastError error = (if instanceofError error then error else Error (errorMessage error))"

text \<open>
  The \<^verbatim>\<open>for\<close> loop of \<^verbatim>\<open>executeWithRetry\<close>. The operation acts on a state \<open>'s\<close>
  and either returns (\<open>Inr\<close>) or throws (\<open>Inl\<close>); \<open>delay ms\<close> is the effect of
  \<^verbatim>\<open>await this.delay(ms)\<close> on that state. The locals \<open>attempt\<close>, \<open>currentDelay\<close> and
  \<open>lastError\<close> are arguments; \<open>lastError\<close> starts as \<^verbatim>\<open>undefined\<close>.
\<close>

function executeWithRetry_loop ::
  "RetryOptions \<Rightarrow> (int \<Rightarrow> 's \<Rightarrow> 's) \<Rightarrow> ('s \<Rightarrow> (thrown + 'a) \<times> 's) \<Rightarrow> int
     \<Rightarrow> int \<Rightarrow> int \<Rightarrow> thrown \<Rightarrow> 's \<Rightarrow> (thrown + 'a) \<times> 's" where
  "executeWithRetry_loop options delay operation maxAttempts attempt currentDelay lastError s =
     (if attempt \<le> maxAttempts then
        (case operation s of
           (Inr v, s1) \<Rightarrow> (Inr v, s1)
         | (Inl error, s1) \<Rightarrow>
             if attempt = maxAttempts then (Inl (toLastError error), s1)
             else executeWithRetry_loop options delay operation maxAttempts (attempt + 1)
                    (min (currentDelay * backoffMultiplier options) (maxDelay options))
                    (toLastError error) (delay currentDelay s1))
      else (Inl lastError, s))"
  by pat_completeness auto
termination
  by (relation "measure (\<lambda>(options, delay, operation, maxAttempts, attempt, currentDelay, lastError, s).
        nat (maxAttempts + 1 - attempt))") auto

definition executeWithRetry ::
  "RetryOptions \<Rightarrow> (int \<Rightarrow> 's \<Rightarrow> 's) \<Rightarrow> ('s \<Rightarrow> (thrown + 'a) \<times> 's) \<Rightarrow> int
     \<Rightarrow> 's \<Rightarrow> (thrown + 'a) \<times> 's" where
  "executeWithRetry options delay operation maxAttempts s =
     (if maxAttempts < 1 then (Inl (Error ''maxAttempts must be at least 1''), s)
      else executeWithRetry_loop options delay operation maxAttempts 1 (initialDelay options)
             (NonError ''undefined'') s)"

text \<open>
  For the statements: a state that records what the handler does to its surroundings.
  \<open>outcomes\<close> lists the result of every run of the operation and \<open>sleeps\<close> every delay
  requested, both in order; \<open>inner\<close> is the operation's own state.
\<close>

record ('s, 'a) probe =
  inner :: 's
  outcomes :: "(thrown + 'a) list"
  sleeps :: "int list"

definition probe_operation ::
  "('s \<Rightarrow> (thrown + 'a) \<times> 's) \<Rightarrow> ('s, 'a) probe \<Rightarrow> (thrown + 'a) \<times> ('s, 'a) probe" where
  "probe_operation operation p =
     (case operation (inner p) of
        (r, s1) \<Rightarrow> (r, p\<lparr>inner := s1, outcomes := outcomes p @ [r]\<rparr>))"

definition probe_delay :: "int \<Rightarrow> ('s, 'a) probe \<Rightarrow> ('s, 'a) probe" where
  "probe_delay ms p = p\<lparr>sleeps := sleeps p @ [ms]\<rparr>"

text \<open>
  The delay schedule in the specification's words: the first delay is the initial
  value; each following one is the previous delay times the factor, capped at the
  maximum.
\<close>

fun backoffDelay :: "RetryOptions \<Rightarrow> nat \<Rightarrow> int" where
  "backoffDelay options 0 = initialDelay options"
| "backoffDelay options (Suc k) =
     min (backoffDelay options k * backoffMultiplier options) (maxDelay options)"

text \<open>
  The first \<open>n\<close> delays when the current delay is \<open>d\<close>: the values the local
  \<open>currentDelay\<close> takes over \<open>n\<close> failed attempts.
\<close>

fun delaysFrom :: "RetryOptions \<Rightarrow> int \<Rightarrow> nat \<Rightarrow> int list" where
  "delaysFrom options d 0 = []"
| "delaysFrom options d (Suc n) =
     d # delaysFrom options (min (d * backoffMultiplier options) (maxDelay options)) n"

text \<open>
  Concrete operations on a counter, for evaluation: \<open>flakyOperation\<close> throws an
  \<^verbatim>\<open>Error\<close> on its first two runs and returns the run number afterwards;
  \<open>rejectsWithString\<close> always rejects with the string \<^verbatim>\<open>'boom'\<close>, not an \<^verbatim>\<open>Error\<close>.
\<close>

definition flakyOperation :: "nat \<Rightarrow> (thrown + nat) \<times> nat" where
  "flakyOperation n = (if n < 2 then Inl (Error ''boom'') else Inr n, Suc n)"

definition rejectsWithString :: "nat \<Rightarrow> (thrown + nat) \<times> nat" where
  "rejectsWithString n = (Inl (NonError ''boom''), Suc n)"

definition freshProbe :: "(nat, nat) probe" where
  "freshProbe = \<lparr>inner = 0, outcomes = [], sleeps = []\<rparr>"

text \<open>Concrete items for evaluation: \<open>itemA\<close> and \<open>itemB\<close> share a link.\<close>

definition itemA :: RssItem where
  "itemA = \<lparr>title = ''First'', link = ''https://example.com/?p=1'', publishedAt = 1000,
            links = [], itemId = Some ''1'', rawContent = None, metadata = None\<rparr>"

definition itemB :: RssItem where
  "itemB = \<lparr>title = ''Second'', link = ''https://example.com/?p=1'', publishedAt = 2000,
            links = [], itemId = Some ''1'', rawContent = None, metadata = None\<rparr>"

definition itemC :: RssItem where
  "itemC = \<lparr>title = ''Third'', link = ''https://example.com/?p=3'', publishedAt = 3000,
            links = [], itemId = Some ''3'', rawContent = None, metadata = None\<rparr>"

text \<open>
  Concrete collaborators and entries for evaluation: \<open>titleOnlyParseItem\<close> fails like
  \<^verbatim>\<open>ItemParser.parseItem\<close> on an entry without a title and otherwise builds an item
  from the first title and link; \<open>acceptingValidate\<close> never throws.
\<close>

definition titleOnlyParseItem :: "RawRssItem \<Rightarrow> string \<Rightarrow> thrown + RssItem" where
  "titleOnlyParseItem rawItem feedUrl =
     (case raw_title rawItem of
        Some (t # ts) \<Rightarrow>
          Inr \<lparr>title = t, link = (case raw_link rawItem of Some (l # ls) \<Rightarrow> l | _ \<Rightarrow> feedUrl),
               publishedAt = 0, links = [], itemId = None, rawContent = None, metadata = None\<rparr>
      | _ \<Rightarrow> Inl (ParseError ''Item is missing required field: title''
                   (Some feedUrl) (Some ''Unknown'') None))"

definition acceptingValidate :: "RssItem \<Rightarrow> thrown option" where
  "acceptingValidate item = None"

definition rawGood :: RawRssItem where
  "rawGood = \<lparr>raw_title = Some [''Good entry''], raw_link = Some [''https://example.com/?p=7''],
              raw_pubDate = None, raw_content_encoded = None, raw_description = None,
              raw_extra = []\<rparr>"

definition rawBad :: RawRssItem where
  "rawBad = \<lparr>raw_title = None, raw_link = Some [''https://example.com/?p=8''],
             raw_pubDate = None, raw_content_encoded = None, raw_description = None,
             raw_extra = []\<rparr>"

section \<open>Strings and argument values\<close>

text \<open>
  A JavaScript string is modelled as a \<open>string\<close>, one \<open>char\<close> per code unit, so the
  model covers text in the range U+0000 to U+00FF. \<open>isWhitespace\<close> is the class
  \<^verbatim>\<open>\s\<close> of a regular expression, which is also what \<^verbatim>\<open>String.prototype.trim\<close>
  removes, restricted to that range: tab, line feed, vertical tab, form feed, carriage
  return, space and no-break space.
\<close>

definition isWhitespace :: "char \<Rightarrow> bool" where
  "isWhitespace c =
     (c = CHR 0x09 \<or> c = CHR 0x0A \<or> c = CHR 0x0B \<or> c = CHR 0x0C \<or> c = CHR 0x0D
      \<or> c = CHR 0x20 \<or> c = CHR 0xA0)"

text \<open>\<^verbatim>\<open>s.trim()\<close>\<close>

definition trim :: "string \<Rightarrow> string" where
  "trim s = rev (dropWhile isWhitespace (rev (dropWhile isWhitespace s)))"

text \<open>
  \<^verbatim>\<open>s.replace(/\s+/g, ' ')\<close>: every maximal run of whitespace becomes one space.
\<close>

function collapseWhitespace :: "string \<Rightarrow> string" where
  "collapseWhitespace [] = []"
| "collapseWhitespace (c # cs) =
     (if isWhitespace c then CHR 0x20 # collapseWhitespace (dropWhile isWhitespace cs)
      else c # collapseWhitespace cs)"
  by pat_completeness auto
termination
  by (relation "measure length") (auto simp: length_dropWhile_le less_Suc_eq_le)

text \<open>The trailing half of \<open>trim\<close>, for the proofs about it.\<close>

definition trimEnd :: "string \<Rightarrow> string" where
  "trimEnd s = rev (dropWhile isWhitespace (rev s))"

text \<open>
  An argument whose static type is \<^verbatim>\<open>string\<close> may hold any value at run time:
  \<open>JsString s\<close> is a string, \<open>JsOther\<close> any value that is not one (\<^verbatim>\<open>undefined\<close>,
  \<^verbatim>\<open>null\<close>, a number, an object).
\<close>

datatype jsvalue = JsString string | JsOther

section \<open>Title cleaner (TitleCleaner.cleanTitle)\<close>

text \<open>
  A removal pattern is given by what \<^verbatim>\<open>cleaned.replace(pattern, '')\<close> does with it:
  the new text, or the value the call throws. \<^verbatim>\<open>TitleCleanOptions\<close> has the two
  optional patterns; the \<open>options\<close> argument itself is optional.
\<close>

type_synonym pattern = "string \<Rightarrow> thrown + string"

record TitleCleanOptions =
  suffixPattern :: "pattern option"
  prefixPattern :: "pattern option"

text \<open>
  One \<^verbatim>\<open>if (pattern) { try { cleaned = cleaned.replace(pattern, '') } catch { } }\<close>
  block.
\<close>

definition removePattern :: "pattern option \<Rightarrow> string \<Rightarrow> string" where
  "removePattern pat cleaned =
     (case pat of
        None \<Rightarrow> cleaned
      | Some replace \<Rightarrow> (case replace cleaned of Inr replaced \<Rightarrow> replaced | Inl error \<Rightarrow> cleaned))"

definition cleanTitle :: "jsvalue \<Rightarrow> TitleCleanOptions option \<Rightarrow> string" where
  "cleanTitle titleArg options =
     (case titleArg of
        JsOther \<Rightarrow> []
      | JsString t \<Rightarrow>
          if t = [] then []
          else
            let cleaned = t;
                cleaned = removePattern (case options of None \<Rightarrow> None | Some opts \<Rightarrow> prefixPattern opts) cleaned;
                cleaned = removePattern (case options of None \<Rightarrow> None | Some opts \<Rightarrow> suffixPattern opts) cleaned
            in collapseWhitespace (trim cleaned))"

text \<open>
  Concrete patterns for evaluation: \<open>dropSitePrefix\<close> removes a leading
  \<^verbatim>\<open>[Site] \<close>, \<open>throwingPattern\<close> throws on every title.
\<close>

definition dropSitePrefix :: pattern where
  "dropSitePrefix s = Inr (if take 7 s = ''[Site] '' then drop 7 s else s)"

definition throwingPattern :: pattern where
  "throwingPattern s = Inl (Error ''Invalid regular expression'')"

definition sampleTitle :: string where
  "sampleTitle = ''Sample    Title'' @ [CHR 0x0A, CHR 0x09] @ ''with''"

section \<open>Item validator (ItemValidator.validate)\<close>

text \<open>
  \<^verbatim>\<open>validate(item)\<close>, with \<open>Some e\<close> when it throws \<open>e\<close>. The fields of \<open>RssItem\<close>
  are typed, so of the checks of the source the two that can fail are those on the
  title and on the link: each must be non-empty after trimming. The checks on the
  types of the other fields always pass.
\<close>

definition validateItem :: "RssItem \<Rightarrow> thrown option" where
  "validateItem item =
     (if title item = [] \<or> length (trim (title item)) = 0 then
        Some (ParseError ''Item validation failed: title is required and must be a non-empty string''
                None (Some (title item)) None)
      else if link item = [] \<or> length (trim (link item)) = 0 then
        Some (ParseError ''Item validation failed: link is required and must be a non-empty string''
                None (Some (title item)) None)
      else None)"

text \<open>
  For evaluation: \<open>rawBlankLink\<close> is an entry that parses to an item whose link is
  blank, which the validator rejects; \<open>throwingValidate\<close> is a validator that throws
  a plain \<^verbatim>\<open>Error\<close> on every item.
\<close>

definition rawBlankLink :: RawRssItem where
  "rawBlankLink = \<lparr>raw_title = Some [''Blank link''], raw_link = Some [''  ''],
                   raw_pubDate = None, raw_content_encoded = None, raw_description = None,
                   raw_extra = []\<rparr>"

definition throwingValidate :: "RssItem \<Rightarrow> thrown option" where
  "throwingValidate item = Some (Error ''boom'')"

section \<open>Link extractor (LinkExtractor.extractLinks)\<close>

text \<open>
  The HTML parser is an outside library. \<open>load\<close> stands for \<^verbatim>\<open>cheerio.load(html)\<close>
  followed by the enumeration \<^verbatim>\<open>$('a').each(...)\<close>: for every anchor in document
  order the value of \<^verbatim>\<open>$(element).attr('href')\<close> (\<open>None\<close> when the attribute is
  missing), or the value thrown.
\<close>

type_synonym htmlLoader = "string \<Rightarrow> thrown + string option list"

text \<open>
  The body of the \<^verbatim>\<open>each\<close> callback:
  \<^verbatim>\<open>if (href && href.trim().length > 0) links.push(href.trim())\<close>.
\<close>

fun collectHrefs :: "string option list \<Rightarrow> string list" where
  "collectHrefs [] = []"
| "collectHrefs (None # hrefs) = collectHrefs hrefs"
| "collectHrefs (Some href # hrefs) =
     (if href \<noteq> [] \<and> length (trim href) > 0 then trim href # collectHrefs hrefs
      else collectHrefs hrefs)"

text \<open>
  \<^verbatim>\<open>links.filter(link => { if (seen.has(link)) return false; seen.add(link); return true })\<close>,
  with the set \<open>seen\<close> threaded through.
\<close>

fun uniqueLinks :: "string list \<Rightarrow> string set \<Rightarrow> string list" where
  "uniqueLinks [] seen = []"
| "uniqueLinks (l # ls) seen =
     (if l \<in> seen then uniqueLinks ls seen else l # uniqueLinks ls (insert l seen))"

definition extractLinks :: "htmlLoader \<Rightarrow> jsvalue \<Rightarrow> string list" where
  "extractLinks load html =
     (case html of
        JsOther \<Rightarrow> []
      | JsString h \<Rightarrow>
          if h = [] then []
          else (case load h of
                  Inl error \<Rightarrow> []
                | Inr hrefs \<Rightarrow> uniqueLinks (collectHrefs hrefs) {}))"

text \<open>
  Concrete documents for evaluation, with the parser's answer on each.
  \<open>unclosedTagHtml\<close> is the malformed document of the package's own test
  (\<^verbatim>\<open>tests/unit/LinkExtractor.test.ts\<close>, "should handle malformed HTML gracefully"),
  on which the parser does not throw and finds the one anchor, as that test expects.
\<close>

definition threeAnchorsHtml :: string where
  "threeAnchorsHtml =
     ''<a href=\"https://a.example/x\">1</a><a href=\" magnet:?xt=1 \">2</a><a href=\"https://a.example/x\">3</a><a>4</a>''"

definition unclosedTagHtml :: string where
  "unclosedTagHtml = ''<a href=\"test\">Link</a><p>Unclosed tag''"

definition sampleLoad :: htmlLoader where
  "sampleLoad html =
     (if html = threeAnchorsHtml
        then Inr [Some ''https://a.example/x'', Some '' magnet:?xt=1 '', Some ''https://a.example/x'', None]
      else if html = unclosedTagHtml then Inr [Some ''test'']
      else if html = ''throw'' then Inl (Error ''parse failure'')
      else Inr [])"

section \<open>The automation engine\<close>

text \<open>
  Puppeteer is an outside library; \<open>engine\<close> is what the package can observe of it
  and do to it. A browser handle is an object compared by identity, here a number.
  \<^item> \<open>isConnected b\<close> is \<^verbatim>\<open>browser.isConnected()\<close>;
  \<^item> \<open>disconnectedEmitted b\<close> says that the browser's \<^verbatim>\<open>'disconnected'\<close> event has been
    emitted, so that the handler registered in \<^verbatim>\<open>BrowserManager.launch\<close> has run;
  \<^item> \<open>closeRejects b\<close> is the value \<^verbatim>\<open>browser.close()\<close> rejects with, if it does;
  \<^item> \<open>launchResult n\<close> is the outcome of the \<open>n\<close>-th call of \<^verbatim>\<open>puppeteer.launch\<close>
    and \<open>launches\<close> counts the calls made so far;
  \<^item> \<open>navigation b url timeout\<close> is what opening a page in \<open>b\<close> and navigating it to
    \<open>url\<close> leads to;
  \<^item> \<open>events\<close> lists, in order, the calls made to the engine and to the timer.

  Every function of the model runs one call of the source to completion before the
  next one starts: the interleaving of concurrent callers, the \<open>launching\<close> flag of
  the manager and its polling loop (which only matter while a launch is in flight) are
  outside the model.
\<close>

type_synonym Browser = nat

datatype navigation =
    NewPageThrows thrown
  | GotoThrows thrown
  | NoResponse
  | Response int "thrown + string"

datatype event =
    Launched
  | Closed Browser
  | Killed Browser
  | PageOpened Browser
  | Navigated Browser string
  | PageClosed Browser
  | Slept int

record engine =
  isConnected :: "Browser \<Rightarrow> bool"
  disconnectedEmitted :: "Browser \<Rightarrow> bool"
  closeRejects :: "Browser \<Rightarrow> thrown option"
  launchResult :: "nat \<Rightarrow> thrown + Browser"
  launches :: nat
  navigation :: "Browser \<Rightarrow> string \<Rightarrow> int \<Rightarrow> navigation"
  events :: "event list"

definition logEvent :: "event \<Rightarrow> engine \<Rightarrow> engine" where
  "logEvent e w = w\<lparr>events := events w @ [e]\<rparr>"

section \<open>One browser (BrowserManager)\<close>

record BrowserManager =
  browser :: "Browser option"

text \<open>
  The value of \<^verbatim>\<open>this.browser\<close> as the code reads it: the stored handle, unless its
  \<^verbatim>\<open>'disconnected'\<close> handler has set the field to \<^verbatim>\<open>null\<close>.
  This is also \<^verbatim>\<open>getBrowser()\<close>.
\<close>

definition getBrowser :: "engine \<Rightarrow> BrowserManager \<Rightarrow> Browser option" where
  "getBrowser w m =
     (case browser m of
        None \<Rightarrow> None
      | Some b \<Rightarrow> if disconnectedEmitted w b then None else Some b)"

text \<open>
  \<^verbatim>\<open>launch()\<close>: a live handle is returned as it is; otherwise the engine is asked for
  a new browser (\<open>launchNew\<close>, the \<^verbatim>\<open>try\<close> block), and a failure is wrapped in a
  \<^verbatim>\<open>BrowserError\<close> for \<^verbatim>\<open>'launch'\<close>.
\<close>

definition launchNew :: "engine \<Rightarrow> BrowserManager \<Rightarrow> (thrown + Browser) \<times> BrowserManager \<times> engine" where
  "launchNew w m =
     (let w1 = logEvent Launched (w\<lparr>launches := Suc (launches w)\<rparr>) in
      case launchResult w (launches w) of
        Inr nb \<Rightarrow> (Inr nb, m\<lparr>browser := Some nb\<rparr>, w1)
      | Inl error \<Rightarrow>
          (Inl (BrowserError (''Failed to launch browser: '' @ errorMessage error)
                  ''launch'' (causeOf error)),
           m\<lparr>browser := None\<rparr>, w1))"

definition launch :: "engine \<Rightarrow> BrowserManager \<Rightarrow> (thrown + Browser) \<times> BrowserManager \<times> engine" where
  "launch w m =
     (case getBrowser w m of
        Some b \<Rightarrow> if isConnected w b then (Inr b, m, w) else launchNew w m
      | None \<Rightarrow> launchNew w m)"

text \<open>
  \<^verbatim>\<open>close()\<close>: nothing to do without a handle; otherwise \<^verbatim>\<open>browser.close()\<close> is
  awaited, its failure is wrapped in a \<^verbatim>\<open>BrowserError\<close> for \<^verbatim>\<open>'close'\<close> and
  thrown, and the \<^verbatim>\<open>finally\<close> block clears the field either way. A browser that
  closed is no longer connected.
\<close>

definition close :: "engine \<Rightarrow> BrowserManager \<Rightarrow> (thrown + unit) \<times> BrowserManager \<times> engine" where
  "close w m =
     (case getBrowser w m of
        None \<Rightarrow> (Inr (), m, w)
      | Some b \<Rightarrow>
          (case closeRejects w b of
             Some error \<Rightarrow>
               (Inl (BrowserError (''Failed to close browser: '' @ errorMessage error)
                       ''close'' (causeOf error)),
                m\<lparr>browser := None\<rparr>, w)
           | None \<Rightarrow>
               (Inr (), m\<lparr>browser := None\<rparr>,
                logEvent (Closed b)
                  (w\<lparr>isConnected := (isConnected w)(b := False),
                     disconnectedEmitted := (disconnectedEmitted w)(b := True)\<rparr>))))"

text \<open>\<^verbatim>\<open>kill()\<close>: the process is killed, errors are ignored, the field is cleared.\<close>

definition kill :: "engine \<Rightarrow> BrowserManager \<Rightarrow> BrowserManager \<times> engine" where
  "kill w m =
     (case getBrowser w m of
        None \<Rightarrow> (m, w)
      | Some b \<Rightarrow>
          (m\<lparr>browser := None\<rparr>,
           logEvent (Killed b)
             (w\<lparr>isConnected := (isConnected w)(b := False),
                disconnectedEmitted := (disconnectedEmitted w)(b := True)\<rparr>)))"

text \<open>\<^verbatim>\<open>restart()\<close>: \<^verbatim>\<open>await this.close(); return await this.launch();\<close>\<close>

definition restart :: "engine \<Rightarrow> BrowserManager \<Rightarrow> (thrown + Browser) \<times> BrowserManager \<times> engine" where
  "restart w m =
     (case close w m of
        (Inl error, m1, w1) \<Rightarrow> (Inl error, m1, w1)
      | (Inr u, m1, w1) \<Rightarrow> launch w1 m1)"

section \<open>The pool (BrowserPool)\<close>

text \<open>
  A JavaScript \<^verbatim>\<open>Set\<close> of handles is a list without repetition in insertion order:
  \<^verbatim>\<open>has\<close>, \<^verbatim>\<open>add\<close>, \<^verbatim>\<open>delete\<close> and \<^verbatim>\<open>size\<close>.
\<close>

definition setHas :: "'a list \<Rightarrow> 'a \<Rightarrow> bool" where
  "setHas s x = (x \<in> set s)"

definition setAdd :: "'a list \<Rightarrow> 'a \<Rightarrow> 'a list" where
  "setAdd s x = (if x \<in> set s then s else s @ [x])"

definition setDelete :: "'a list \<Rightarrow> 'a \<Rightarrow> 'a list" where
  "setDelete s x = filter (\<lambda>y. y \<noteq> x) s"

text \<open>
  The fields of the class. An entry of \<open>waitQueue\<close> is the callback of a queued
  \<^verbatim>\<open>acquire\<close>, named by a number. \<open>poolSize\<close> is a whole number.
\<close>

type_synonym waiter = nat

record BrowserPool =
  managers :: "BrowserManager list"
  availableBrowsers :: "Browser list"
  busyBrowsers :: "Browser list"
  initialized :: bool
  waitQueue :: "waiter list"
  poolSize :: int
  disableSandbox :: bool

text \<open>The constructor, with its two optional options.\<close>

definition newBrowserPool :: "int option \<Rightarrow> bool option \<Rightarrow> thrown + BrowserPool" where
  "newBrowserPool optPoolSize optDisableSandbox =
     (let size = (case optPoolSize of None \<Rightarrow> 2 | Some n \<Rightarrow> n);
          sandbox = (case optDisableSandbox of None \<Rightarrow> False | Some d \<Rightarrow> d)
      in if size < 1 then Inl (Error ''Pool size must be at least 1'')
         else Inr \<lparr>managers = [], availableBrowsers = [], busyBrowsers = [], initialized = False,
                   waitQueue = [], poolSize = size, disableSandbox = sandbox\<rparr>)"

text \<open>\<^verbatim>\<open>BrowserPoolStats\<close> and \<^verbatim>\<open>getStats()\<close>.\<close>

record BrowserPoolStats =
  total :: int
  available :: int
  inUse :: int

definition getStats :: "BrowserPool \<Rightarrow> BrowserPoolStats" where
  "getStats p = \<lparr>total = poolSize p, available = int (length (availableBrowsers p)),
                 inUse = int (length (busyBrowsers p))\<rparr>"

definition isInitialized :: "BrowserPool \<Rightarrow> bool" where
  "isInitialized p = initialized p"

text \<open>
  \<^verbatim>\<open>this.managers.map(manager => manager.launch())\<close> with \<^verbatim>\<open>Promise.all\<close>: the
  launches are started in index order and all run to their end; the results are
  listed in the same order, next to the managers as the launches leave them.
\<close>

fun launchAll ::
  "engine \<Rightarrow> BrowserManager list \<Rightarrow> (thrown + Browser) list \<times> BrowserManager list \<times> engine" where
  "launchAll w [] = ([], [], w)"
| "launchAll w (m # ms) =
     (case launch w m of
        (r, m1, w1) \<Rightarrow>
          (case launchAll w1 ms of
             (rs, ms1, w2) \<Rightarrow> (r # rs, m1 # ms1, w2)))"

text \<open>
  What \<^verbatim>\<open>Promise.all\<close> settles to: the list of browsers when every launch
  succeeded, otherwise a rejection, taken to be the one of lowest index.
\<close>

fun promiseAll :: "(thrown + 'a) list \<Rightarrow> thrown + 'a list" where
  "promiseAll [] = Inr []"
| "promiseAll (Inl error # rs) = Inl error"
| "promiseAll (Inr v # rs) = (case promiseAll rs of Inl error \<Rightarrow> Inl error | Inr vs \<Rightarrow> Inr (v # vs))"

text \<open>
  \<^verbatim>\<open>manager.close().catch(() => manager.kill())\<close> for every manager, in order.
\<close>

fun closeAll :: "engine \<Rightarrow> BrowserManager list \<Rightarrow> BrowserManager list \<times> engine" where
  "closeAll w [] = ([], w)"
| "closeAll w (m # ms) =
     (case close w m of
        (Inr u, m1, w1) \<Rightarrow> (case closeAll w1 ms of (ms1, w2) \<Rightarrow> (m1 # ms1, w2))
      | (Inl error, m1, w1) \<Rightarrow>
          (case kill w1 m1 of
             (m2, w2) \<Rightarrow> (case closeAll w2 ms of (ms1, w3) \<Rightarrow> (m2 # ms1, w3))))"

text \<open>\<^verbatim>\<open>cleanup()\<close>\<close>

definition cleanup :: "engine \<Rightarrow> BrowserPool \<Rightarrow> BrowserPool \<times> engine" where
  "cleanup w p =
     (case closeAll w (managers (p\<lparr>waitQueue := []\<rparr>)) of
        (ms, w1) \<Rightarrow>
          (p\<lparr>waitQueue := [], managers := [], availableBrowsers := [], busyBrowsers := [],
             initialized := False\<rparr>, w1))"

text \<open>
  \<^verbatim>\<open>initialize()\<close>. When a launch fails, the \<^verbatim>\<open>catch\<close> block is taken here in the
  schedule in which every launch has settled before it runs, so that \<^verbatim>\<open>cleanup\<close> sees
  every launched browser. In the source \<^verbatim>\<open>Promise.all\<close> rejects at the first rejection
  in time, and a launch still in flight at that moment is not closed by \<^verbatim>\<open>cleanup\<close>;
  which launches those are depends on timing.
\<close>

definition initialize :: "engine \<Rightarrow> BrowserPool \<Rightarrow> (thrown + unit) \<times> BrowserPool \<times> engine" where
  "initialize w p =
     (if initialized p then (Inr (), p, w)
      else
        (case launchAll w (replicate (nat (poolSize p)) \<lparr>browser = None\<rparr>) of
           (results, ms, w1) \<Rightarrow>
             (case promiseAll results of
                Inr browsers \<Rightarrow>
                  (Inr (), p\<lparr>managers := ms, availableBrowsers := browsers, busyBrowsers := [],
                             initialized := True\<rparr>, w1)
              | Inl error \<Rightarrow>
                  (case cleanup w1 (p\<lparr>managers := ms\<rparr>) of
                     (p1, w2) \<Rightarrow>
                       (Inl (BrowserError (''Failed to initialize browser pool: '' @ errorMessage error)
                               ''initialize'' (causeOf error)),
                        p1, w2)))))"

text \<open>\<^verbatim>\<open>close()\<close> of the pool\<close>

definition closePool :: "engine \<Rightarrow> BrowserPool \<Rightarrow> BrowserPool \<times> engine" where
  "closePool w p = (if \<not> initialized p then (p, w) else cleanup w p)"

text \<open>
  \<^verbatim>\<open>this.managers.find(m => m.getBrowser() === browser)\<close>, as the index of the
  manager found.
\<close>

fun findManager :: "engine \<Rightarrow> BrowserManager list \<Rightarrow> Browser \<Rightarrow> nat option" where
  "findManager w [] b = None"
| "findManager w (m # ms) b =
     (if getBrowser w m = Some b then Some 0
      else (case findManager w ms b of None \<Rightarrow> None | Some i \<Rightarrow> Some (Suc i)))"

text \<open>
  \<^verbatim>\<open>const i = xs.indexOf(x); if (i !== -1) xs[i] = y\<close>: the first occurrence of \<open>x\<close>
  is replaced.
\<close>

fun replaceFirst :: "'a list \<Rightarrow> 'a \<Rightarrow> 'a \<Rightarrow> 'a list" where
  "replaceFirst [] x y = []"
| "replaceFirst (z # zs) x y = (if z = x then y # zs else z # replaceFirst zs x y)"

text \<open>\<^verbatim>\<open>recoverBrowser(browser)\<close>\<close>

definition recoverBrowser :: "engine \<Rightarrow> Browser \<Rightarrow> BrowserPool \<Rightarrow> (thrown + unit) \<times> BrowserPool \<times> engine" where
  "recoverBrowser w b p =
     (case findManager w (managers p) b of
        None \<Rightarrow> (Inl (BrowserError ''Cannot recover browser: manager not found'' ''recover'' None), p, w)
      | Some i \<Rightarrow>
          (case restart w (managers p ! i) of
             (Inl error, m1, w1) \<Rightarrow>
               (Inl (BrowserError (''Failed to recover browser: '' @ errorMessage error)
                       ''recover'' (causeOf error)),
                p\<lparr>managers := (managers p)[i := m1]\<rparr>, w1)
           | (Inr newBrowser, m1, w1) \<Rightarrow>
               (let p1 = p\<lparr>managers := (managers p)[i := m1]\<rparr>;
                    p2 = p1\<lparr>availableBrowsers := replaceFirst (availableBrowsers p1) b newBrowser\<rparr>;
                    p3 = (if setHas (busyBrowsers p2) b
                          then p2\<lparr>busyBrowsers := setAdd (setDelete (busyBrowsers p2) b) newBrowser\<rparr>
                          else p2)
                in (Inr (), p3, w1))))"

text \<open>Decimal text of a whole number, as a template literal renders it.\<close>

function showNat :: "nat \<Rightarrow> string" where
  "showNat n =
     (if n < 10 then [''0123456789'' ! n]
      else showNat (n div 10) @ [''0123456789'' ! (n mod 10)])"
  by pat_completeness auto
termination
  by (relation "measure (\<lambda>n. n)") auto

definition showInt :: "int \<Rightarrow> string" where
  "showInt i = (if i < 0 then CHR ''-'' # showNat (nat (- i)) else showNat (nat i))"

text \<open>
  \<^verbatim>\<open>acquire(maxRetries = 3, attempt = 0)\<close>. The promise it returns is fulfilled with
  a handle (\<open>Acquired\<close>), rejected (\<open>AcquireFailed\<close>), or left pending with the
  caller's callback \<open>who\<close> pushed on the wait queue (\<open>Queued\<close>).
\<close>

datatype acquired = Acquired Browser | AcquireFailed thrown | Queued

function acquire ::
  "engine \<Rightarrow> waiter \<Rightarrow> nat \<Rightarrow> nat \<Rightarrow> BrowserPool \<Rightarrow> acquired \<times> BrowserPool \<times> engine" where
  "acquire w who maxRetries attempt p =
     (if \<not> initialized p then
        (AcquireFailed (BrowserError ''Browser pool is not initialized. Call initialize() first.''
                          ''acquire'' None), p, w)
      else if attempt \<ge> maxRetries then
        (AcquireFailed (BrowserError (''Failed to acquire browser after '' @ showNat maxRetries
                                        @ '' retry attempts'') ''acquire'' None), p, w)
      else if length (availableBrowsers p) > 0 then
        (let b = last (availableBrowsers p);
             p1 = p\<lparr>availableBrowsers := butlast (availableBrowsers p)\<rparr>
         in if \<not> isConnected w b then
              (case recoverBrowser w b p1 of
                 (Inl error, p2, w2) \<Rightarrow> (AcquireFailed error, p2, w2)
               | (Inr u, p2, w2) \<Rightarrow> acquire w2 who maxRetries (attempt + 1) p2)
            else (Acquired b, p1\<lparr>busyBrowsers := setAdd (busyBrowsers p1) b\<rparr>, w))
      else (Queued, p\<lparr>waitQueue := waitQueue p @ [who]\<rparr>, w))"
  by pat_completeness auto
termination
  by (relation "measure (\<lambda>(w, who, maxRetries, attempt, p). maxRetries - attempt)") auto

text \<open>
  The timer of a queued \<^verbatim>\<open>acquire\<close>, 60 seconds later. It looks for \<^verbatim>\<open>resolve\<close> in
  the wait queue, but the queue holds the wrapping callback, a different function, so
  \<^verbatim>\<open>indexOf\<close> gives -1 and the queue stays as it is; the promise is rejected.
\<close>

definition acquireTimeout :: "BrowserPool \<Rightarrow> thrown \<times> BrowserPool" where
  "acquireTimeout p =
     (BrowserError ''Browser acquisition timeout after 60 seconds'' ''acquire'' None, p)"

text \<open>
  \<^verbatim>\<open>await pool.acquire()\<close> by a caller that is alone: a queued request is not served
  by anybody's release, so it ends by its timer.
\<close>

definition awaitAcquire ::
  "engine \<Rightarrow> waiter \<Rightarrow> BrowserPool \<Rightarrow> (thrown + Browser) \<times> BrowserPool \<times> engine" where
  "awaitAcquire w who p =
     (case acquire w who 3 0 p of
        (Acquired b, p1, w1) \<Rightarrow> (Inr b, p1, w1)
      | (AcquireFailed error, p1, w1) \<Rightarrow> (Inl error, p1, w1)
      | (Queued, p1, w1) \<Rightarrow>
          (case acquireTimeout p1 of
             (error, p2) \<Rightarrow> (Inl error, p2, logEvent (Slept 60000) w1)))"

text \<open>
  \<^verbatim>\<open>release(browser)\<close>. On success the value tells which queued callback was called
  with which handle, if any. \<open>self\<close> names the request that the call makes itself
  when it has to find a working browser for a waiter.
\<close>

definition release ::
  "engine \<Rightarrow> waiter \<Rightarrow> Browser \<Rightarrow> BrowserPool
     \<Rightarrow> (thrown + (waiter \<times> Browser) option) \<times> BrowserPool \<times> engine" where
  "release w self b p =
     (if \<not> initialized p then
        (Inl (BrowserError ''Browser pool is not initialized'' ''release'' None), p, w)
      else if \<not> setHas (busyBrowsers p) b then
        (Inl (BrowserError ''Browser is not from this pool or was already released'' ''release'' None),
         p, w)
      else
        (let p1 = p\<lparr>busyBrowsers := setDelete (busyBrowsers p) b\<rparr> in
         if length (waitQueue p1) > 0 then
           (let resolve = hd (waitQueue p1);
                p2 = p1\<lparr>waitQueue := tl (waitQueue p1)\<rparr>
            in if \<not> isConnected w b then
                 (case recoverBrowser w b p2 of
                    (Inl error, p3, w3) \<Rightarrow> (Inl error, p3, w3)
                  | (Inr u, p3, w3) \<Rightarrow>
                      (case awaitAcquire w3 self p3 of
                         (Inl error, p4, w4) \<Rightarrow> (Inl error, p4, w4)
                       | (Inr workingBrowser, p4, w4) \<Rightarrow> (Inr (Some (resolve, workingBrowser)), p4, w4)))
               else (Inr (Some (resolve, b)), p2\<lparr>busyBrowsers := setAdd (busyBrowsers p2) b\<rparr>, w))
         else (Inr None, p1\<lparr>availableBrowsers := availableBrowsers p1 @ [b]\<rparr>, w)))"

section \<open>Fetching a feed (FeedFetcher.fetchFeed)\<close>

text \<open>
  The test \<^verbatim>\<open>/^https?:\/\//i.test(feedUrl)\<close>: the letters of \<^verbatim>\<open>http\<close> in either
  case, an optional \<^verbatim>\<open>s\<close> in either case, then \<^verbatim>\<open>://\<close>.
\<close>

fun isHttpUrl :: "string \<Rightarrow> bool" where
  "isHttpUrl (h # t1 # t2 # p # rest) =
     ((h = CHR ''h'' \<or> h = CHR ''H'') \<and> (t1 = CHR ''t'' \<or> t1 = CHR ''T'')
      \<and> (t2 = CHR ''t'' \<or> t2 = CHR ''T'') \<and> (p = CHR ''p'' \<or> p = CHR ''P'')
      \<and> (case rest of
            [] \<Rightarrow> False
          | s # rest1 \<Rightarrow>
              if s = CHR ''s'' \<or> s = CHR ''S'' then take 3 rest1 = ''://''
              else take 3 rest = ''://''))"
| "isHttpUrl url = False"

text \<open>
  The \<^verbatim>\<open>catch\<close> block of \<^verbatim>\<open>fetchFeed\<close>: a \<^verbatim>\<open>FeedFetchError\<close> is thrown on as it
  is, anything else is wrapped.
\<close>

definition wrapFetchError :: "string \<Rightarrow> thrown \<Rightarrow> thrown" where
  "wrapFetchError feedUrl error =
     (if instanceofFeedFetchError error then error
      else FeedFetchError (''Failed to fetch feed: '' @ errorMessage error) feedUrl (causeOf error))"

text \<open>
  \<^verbatim>\<open>fetchFeed(feedUrl, browser, timeout)\<close>. The two checks of the URL come before
  any use of the browser. A handle obtained from the pool is an object, so the check
  \<^verbatim>\<open>if (!browser)\<close> does not fire. Errors of \<^verbatim>\<open>page.close()\<close> are ignored by the
  source.
\<close>

definition fetchFeed :: "engine \<Rightarrow> string \<Rightarrow> Browser \<Rightarrow> int \<Rightarrow> (thrown + string) \<times> engine" where
  "fetchFeed w feedUrl b fetchTimeout =
     (if feedUrl = [] then (Inl (FeedFetchError ''Feed URL is required'' feedUrl None), w)
      else if \<not> isHttpUrl feedUrl then
        (Inl (FeedFetchError ''Invalid feed URL: must use HTTP or HTTPS protocol'' feedUrl None), w)
      else
        (case navigation w b feedUrl fetchTimeout of
           NewPageThrows error \<Rightarrow> (Inl (wrapFetchError feedUrl error), w)
         | GotoThrows error \<Rightarrow>
             (Inl (wrapFetchError feedUrl error),
              logEvent (PageClosed b) (logEvent (Navigated b feedUrl) (logEvent (PageOpened b) w)))
         | NoResponse \<Rightarrow>
             (Inl (FeedFetchError ''Failed to navigate to feed URL: no response received'' feedUrl None),
              logEvent (PageClosed b) (logEvent (Navigated b feedUrl) (logEvent (PageOpened b) w)))
         | Response status text \<Rightarrow>
             (let w1 = logEvent (PageClosed b) (logEvent (Navigated b feedUrl) (logEvent (PageOpened b) w))
              in if status < 200 \<or> status \<ge> 400 then
                   (Inl (FeedFetchError (''Failed to fetch feed: HTTP '' @ showInt status) feedUrl None), w1)
                 else
                   (case text of
                      Inl error \<Rightarrow> (Inl (wrapFetchError feedUrl error), w1)
                    | Inr content \<Rightarrow>
                        if content = [] \<or> length (trim content) = 0
                        then (Inl (FeedFetchError ''Feed content is empty'' feedUrl None), w1)
                        else (Inr content, w1)))))"

section \<open>The reader (RssReader)\<close>

text \<open>
  The configuration after the constructor has merged the defaults, and the reader's
  own state, which is its pool. The XML parser, the item parser and the validator are
  the reader's collaborators.
\<close>

record RssReaderConfig =
  browserPoolSize :: int
  retryAttempts :: int
  timeout :: int
  titleSuffixPattern :: "pattern option"
  titlePrefixPattern :: "pattern option"
  configDisableSandbox :: bool

record RssReader =
  config :: RssReaderConfig
  browserPool :: BrowserPool

text \<open>
  What the XML parser returns: the \<^verbatim>\<open>rss.channel\<close> array of RSS 2.0 or the
  \<^verbatim>\<open>feed\<close> object of Atom, each as far as the reader looks into it.
\<close>

record Channel =
  channelTitle :: "string list option"
  channelDescription :: "string list option"
  channelItem :: "RawRssItem list option"

record AtomFeed =
  atomTitle :: "string list option"
  atomSubtitle :: "string list option"
  atomEntry :: "RawRssItem list option"

record FeedData =
  rssChannel :: "Channel list option"
  atomFeed :: "AtomFeed option"

record RssFeed =
  feedTitle :: string
  feedUrlOf :: string
  feedDescription :: "string option"
  feedItems :: "RssItem list"
  fetchedAt :: int

text \<open>\<^verbatim>\<open>x?.[0]\<close> when it is a non-empty string, as the truthiness tests read it.\<close>

definition firstTruthy :: "string list option \<Rightarrow> string option" where
  "firstTruthy x =
     (case x of
        Some (s # ss) \<Rightarrow> if s \<noteq> [] then Some s else None
      | _ \<Rightarrow> None)"

definition extractFeedTitle :: "FeedData \<Rightarrow> string" where
  "extractFeedTitle feedData =
     (case (case rssChannel feedData of Some (c # cs) \<Rightarrow> firstTruthy (channelTitle c) | _ \<Rightarrow> None) of
        Some t \<Rightarrow> t
      | None \<Rightarrow>
          (case (case atomFeed feedData of Some f \<Rightarrow> firstTruthy (atomTitle f) | None \<Rightarrow> None) of
             Some t \<Rightarrow> t
           | None \<Rightarrow> ''Unknown Feed''))"

definition extractFeedDescription :: "FeedData \<Rightarrow> string option" where
  "extractFeedDescription feedData =
     (case (case rssChannel feedData of Some (c # cs) \<Rightarrow> firstTruthy (channelDescription c) | _ \<Rightarrow> None) of
        Some d \<Rightarrow> Some d
      | None \<Rightarrow> (case atomFeed feedData of Some f \<Rightarrow> firstTruthy (atomSubtitle f) | None \<Rightarrow> None))"

definition extractRawItems :: "FeedData \<Rightarrow> string \<Rightarrow> thrown + RawRssItem list" where
  "extractRawItems feedData feedUrl =
     (case (case rssChannel feedData of Some (c # cs) \<Rightarrow> channelItem c | _ \<Rightarrow> None) of
        Some rawItems \<Rightarrow> Inr rawItems
      | None \<Rightarrow>
          (case (case atomFeed feedData of Some f \<Rightarrow> atomEntry f | None \<Rightarrow> None) of
             Some rawItems \<Rightarrow> Inr rawItems
           | None \<Rightarrow>
               Inl (InvalidFeedError ''Feed does not contain valid RSS or Atom structure'' feedUrl None)))"

text \<open>
  \<^verbatim>\<open>parseXml\<close>: the outside parser either yields the data or an error, which is
  wrapped in an \<^verbatim>\<open>InvalidFeedError\<close>.
\<close>

definition parseXml :: "(string \<Rightarrow> thrown + FeedData) \<Rightarrow> string \<Rightarrow> string \<Rightarrow> thrown + FeedData" where
  "parseXml parseString xml feedUrl =
     (case parseString xml of
        Inl err \<Rightarrow> Inl (InvalidFeedError (''Failed to parse XML: '' @ errorMessage err) feedUrl (Some err))
      | Inr result \<Rightarrow> Inr result)"

text \<open>
  The operation handed to the retry handler by \<^verbatim>\<open>fetchAndParse\<close>: acquire a
  browser, fetch with it, and release it in the \<^verbatim>\<open>finally\<close> block, whose own
  failure replaces the outcome of the fetch. Its state is the pool and the engine.
\<close>

definition fetchOperation ::
  "waiter \<Rightarrow> string \<Rightarrow> int \<Rightarrow> BrowserPool \<times> engine \<Rightarrow> (thrown + string) \<times> (BrowserPool \<times> engine)" where
  "fetchOperation who feedUrl fetchTimeout s =
     (case s of
        (p, w) \<Rightarrow>
          (case awaitAcquire w who p of
             (Inl error, p1, w1) \<Rightarrow> (Inl error, (p1, w1))
           | (Inr b, p1, w1) \<Rightarrow>
               (case fetchFeed w1 feedUrl b fetchTimeout of
                  (r, w2) \<Rightarrow>
                    (case release w2 who b p1 of
                       (Inl error, p2, w3) \<Rightarrow> (Inl error, (p2, w3))
                     | (Inr handedOver, p2, w3) \<Rightarrow> (r, (p2, w3))))))"

text \<open>\<^verbatim>\<open>await this.delay(ms)\<close> of the retry handler, on that state.\<close>

definition sleepFor :: "int \<Rightarrow> BrowserPool \<times> engine \<Rightarrow> BrowserPool \<times> engine" where
  "sleepFor ms s = (case s of (p, w) \<Rightarrow> (p, logEvent (Slept ms) w))"

text \<open>
  \<^verbatim>\<open>fetchAndParse(feedUrl)\<close>. \<open>now\<close> is the clock read by \<^verbatim>\<open>new Date()\<close>; \<open>who\<close>
  names the reader's requests to the pool.
\<close>

definition fetchAndParse ::
  "(string \<Rightarrow> thrown + FeedData) \<Rightarrow> (RawRssItem \<Rightarrow> string \<Rightarrow> thrown + RssItem)
     \<Rightarrow> (RssItem \<Rightarrow> thrown option) \<Rightarrow> int \<Rightarrow> waiter
     \<Rightarrow> engine \<Rightarrow> RssReader \<Rightarrow> string \<Rightarrow> (thrown + RssFeed) \<times> RssReader \<times> engine" where
  "fetchAndParse parseString parseItem validate now who w reader feedUrl =
     (if \<not> isInitialized (browserPool reader) then
        (Inl (BrowserError ''Browser pool not initialized. Call initialize() first.''
                ''fetchAndParse'' None), reader, w)
      else
        (case executeWithRetry defaultRetryOptions sleepFor
                (fetchOperation who feedUrl (timeout (config reader)))
                (retryAttempts (config reader)) (browserPool reader, w) of
           (Inl error, (p1, w1)) \<Rightarrow> (Inl error, reader\<lparr>browserPool := p1\<rparr>, w1)
         | (Inr xml, (p1, w1)) \<Rightarrow>
             (let reader1 = reader\<lparr>browserPool := p1\<rparr> in
              case parseXml parseString xml feedUrl of
                Inl error \<Rightarrow> (Inl error, reader1, w1)
              | Inr feedData \<Rightarrow>
                  (case extractRawItems feedData feedUrl of
                     Inl error \<Rightarrow> (Inl error, reader1, w1)
                   | Inr rawItems \<Rightarrow>
                       (case parseItems parseItem validate rawItems feedUrl of
                          Inl error \<Rightarrow> (Inl error, reader1, w1)
                        | Inr items \<Rightarrow>
                            (Inr \<lparr>feedTitle = extractFeedTitle feedData, feedUrlOf = feedUrl,
                                   feedDescription = extractFeedDescription feedData,
                                   feedItems = deduplicateItems items, fetchedAt = now\<rparr>,
                             reader1, w1))))))"

text \<open>The constructor of the reader (its pool), \<^verbatim>\<open>initialize()\<close> and \<^verbatim>\<open>close()\<close>.\<close>

definition newRssReader :: "RssReaderConfig \<Rightarrow> thrown + RssReader" where
  "newRssReader cfg =
     (case newBrowserPool (Some (browserPoolSize cfg)) (Some (configDisableSandbox cfg)) of
        Inl error \<Rightarrow> Inl error
      | Inr p \<Rightarrow> Inr \<lparr>config = cfg, browserPool = p\<rparr>)"

definition defaultConfig :: RssReaderConfig where
  "defaultConfig = \<lparr>browserPoolSize = 2, retryAttempts = 3, timeout = 30000,
                    titleSuffixPattern = None, titlePrefixPattern = None,
                    configDisableSandbox = False\<rparr>"

definition readerInitialize :: "engine \<Rightarrow> RssReader \<Rightarrow> (thrown + unit) \<times> RssReader \<times> engine" where
  "readerInitialize w reader =
     (case initialize w (browserPool reader) of
        (r, p1, w1) \<Rightarrow> (r, reader\<lparr>browserPool := p1\<rparr>, w1))"

definition readerClose :: "engine \<Rightarrow> RssReader \<Rightarrow> RssReader \<times> engine" where
  "readerClose w reader =
     (case closePool w (browserPool reader) of
        (p1, w1) \<Rightarrow> (reader\<lparr>browserPool := p1\<rparr>, w1))"

section \<open>Concrete engines, pools and readers for evaluation\<close>

text \<open>
  \<open>sampleEngine\<close>: every browser is connected, closing works, the \<open>n\<close>-th launch
  gives browser \<open>100 + n\<close>, every navigation answers 200 with a small document.
  \<open>stuckEngine\<close>: the same, but \<^verbatim>\<open>browser.close()\<close> rejects for every browser.
  \<open>failingLaunchEngine\<close>: the same as the first, but the launch of index 1 fails.
\<close>

definition sampleEngine :: engine where
  "sampleEngine =
     \<lparr>isConnected = (\<lambda>b. True), disconnectedEmitted = (\<lambda>b. False), closeRejects = (\<lambda>b. None),
      launchResult = (\<lambda>n. Inr (100 + n)), launches = 0,
      navigation = (\<lambda>b url t. Response 200 (Inr ''<rss></rss>'')), events = []\<rparr>"

definition stuckEngine :: engine where
  "stuckEngine = sampleEngine\<lparr>closeRejects := (\<lambda>b. Some (Error ''Target closed''))\<rparr>"

definition failingLaunchEngine :: engine where
  "failingLaunchEngine =
     sampleEngine\<lparr>launchResult := (\<lambda>n. if n = 1 then Inl (Error ''spawn ENOENT'') else Inr (100 + n))\<rparr>"

text \<open>
  \<open>freshPool\<close> is the pool the constructor builds for size 2. \<open>onePool\<close> is an
  initialized pool of size 1 whose browser 7 is available; \<open>busyPool\<close> is the same
  pool after browser 7 was acquired; \<open>contendedPool\<close> is \<open>busyPool\<close> with the
  callback 1 of a queued acquirer waiting.
\<close>

definition freshPool :: BrowserPool where
  "freshPool = \<lparr>managers = [], availableBrowsers = [], busyBrowsers = [], initialized = False,
                waitQueue = [], poolSize = 2, disableSandbox = False\<rparr>"

definition onePool :: BrowserPool where
  "onePool = \<lparr>managers = [\<lparr>browser = Some 7\<rparr>], availableBrowsers = [7], busyBrowsers = [],
              initialized = True, waitQueue = [], poolSize = 1, disableSandbox = False\<rparr>"

definition busyPool :: BrowserPool where
  "busyPool = onePool\<lparr>availableBrowsers := [], busyBrowsers := [7]\<rparr>"

definition contendedPool :: BrowserPool where
  "contendedPool = busyPool\<lparr>waitQueue := [1]\<rparr>"

definition sampleReader :: RssReader where
  "sampleReader = \<lparr>config = defaultConfig\<lparr>browserPoolSize := 1\<rparr>, browserPool = onePool\<rparr>"

definition closedReader :: RssReader where
  "closedReader = \<lparr>config = defaultConfig, browserPool = freshPool\<rparr>"

definition emptyFeedParser :: "string \<Rightarrow> thrown + FeedData" where
  "emptyFeedParser xml = Inr \<lparr>rssChannel = Some [\<lparr>channelTitle = Some [''Sample''],
       channelDescription = None, channelItem = Some []\<rparr>], atomFeed = None\<rparr>"








section \<open>Verified properties\<close>

subsection \<open>Deduplication\<close>

lemma firstOccurrence_0: "firstOccurrence key (x # xs) 0"
  by (simp add: firstOccurrence_def)

lemma firstOccurrence_Suc:
  "firstOccurrence key (x # xs) (Suc i) \<longleftrightarrow> key (xs ! i) \<noteq> key x \<and> firstOccurrence key xs i"
  unfolding firstOccurrence_def by (auto simp: less_Suc_eq_0_disj)

lemma upt_length_Cons: "[0..<length (x # xs)] = 0 # map Suc [0..<length xs]"
  by (simp add: upt_conv_Cons map_Suc_upt del: upt_Suc)

lemma deduplicateItems_loop_positions:
  "deduplicateItems_loop items seen acc =
     acc @ map ((!) items)
            (filter (\<lambda>i. link (items ! i) \<notin> seen \<and> firstOccurrence link items i) [0..<length items])"
proof (induction items arbitrary: seen acc)
  case Nil
  then show ?case by simp
next
  case (Cons x xs)
  show ?case
  proof (cases "link x \<in> seen")
    case True
    have "filter (\<lambda>i. link (xs ! i) \<notin> seen \<and> firstOccurrence link xs i) [0..<length xs] =
          filter (\<lambda>i. link (xs ! i) \<notin> seen \<and> link (xs ! i) \<noteq> link x \<and> firstOccurrence link xs i)
            [0..<length xs]"
      using True by (intro filter_cong) auto
    with True show ?thesis
      unfolding upt_length_Cons
      by (simp add: Cons.IH firstOccurrence_0 firstOccurrence_Suc filter_map o_def del: upt_Suc)
  next
    case False
    have "filter (\<lambda>i. link (xs ! i) \<notin> insert (link x) seen \<and> firstOccurrence link xs i) [0..<length xs] =
          filter (\<lambda>i. link (xs ! i) \<notin> seen \<and> link (xs ! i) \<noteq> link x \<and> firstOccurrence link xs i)
            [0..<length xs]"
      by (intro filter_cong) auto
    with False show ?thesis
      unfolding upt_length_Cons
      by (simp add: Cons.IH firstOccurrence_0 firstOccurrence_Suc filter_map o_def del: upt_Suc)
  qed
qed

lemma deduplicateItems_loop_distinct:
  "distinct (map link acc) \<Longrightarrow> set (map link acc) \<subseteq> seen \<Longrightarrow>
   distinct (map link (deduplicateItems_loop items seen acc))"
proof (induction items arbitrary: seen acc)
  case Nil
  then show ?case by simp
next
  case (Cons x xs)
  show ?case
  proof (cases "link x \<in> seen")
    case True
    then show ?thesis using Cons by simp
  next
    case False
    have "distinct (map link (acc @ [x]))" using Cons.prems False by auto
    moreover have "set (map link (acc @ [x])) \<subseteq> insert (link x) seen" using Cons.prems by auto
    ultimately show ?thesis using False Cons.IH by simp
  qed
qed

lemma deduplicateItems_loop_subseq:
  "\<exists>ys. deduplicateItems_loop items seen acc = acc @ ys \<and> subseq ys items"
proof (induction items arbitrary: seen acc)
  case Nil
  then show ?case by simp
next
  case (Cons x xs)
  show ?case
  proof (cases "link x \<in> seen")
    case True
    then show ?thesis using Cons.IH[of seen acc] by auto
  next
    case False
    from Cons.IH[of "insert (link x) seen" "acc @ [x]"]
    obtain ys where "deduplicateItems_loop xs (insert (link x) seen) (acc @ [x]) = (acc @ [x]) @ ys"
      "subseq ys xs"
      by blast
    with False show ?thesis by auto
  qed
qed

lemma deduplicateItems_loop_links:
  "link ` set (deduplicateItems_loop items seen acc) = link ` set acc \<union> (link ` set items - seen)"
  by (induction items arbitrary: seen acc) auto

text \<open>
  C7. Deduplication by link keeps exactly the items at the positions holding the first
  occurrence of their link, in input order: the result is the input restricted to those
  positions, its links are pairwise distinct, every link of the input is still present,
  and the result is a subsequence of the input. In particular two entries with the same
  link collapse to the first of them.
\<close>

theorem deduplicateItems_keeps_first_occurrences:
  "deduplicateItems items = map ((!) items) (filter (firstOccurrence link items) [0..<length items])
   \<and> distinct (map link (deduplicateItems items))
   \<and> link ` set (deduplicateItems items) = link ` set items
   \<and> subseq (deduplicateItems items) items
   \<and> (link a = link b \<longrightarrow> deduplicateItems [a, b] = [a])"
proof -
  have p: "deduplicateItems items = map ((!) items) (filter (firstOccurrence link items) [0..<length items])"
    by (simp add: deduplicateItems_def deduplicateItems_loop_positions)
  have d: "distinct (map link (deduplicateItems items))"
    unfolding deduplicateItems_def by (rule deduplicateItems_loop_distinct) simp_all
  have l: "link ` set (deduplicateItems items) = link ` set items"
    by (simp add: deduplicateItems_def deduplicateItems_loop_links)
  have s: "subseq (deduplicateItems items) items"
    using deduplicateItems_loop_subseq[of items "{}" "[]"] by (auto simp: deduplicateItems_def)
  have c: "link a = link b \<longrightarrow> deduplicateItems [a, b] = [a]"
    by (simp add: deduplicateItems_def)
  from p d l s c show ?thesis by blast
qed

theorem deduplicateItems_keeps_first_occurrences_witness:
  "link itemA = link itemB
   \<and> deduplicateItems [itemA, itemB] = [itemA]
   \<and> deduplicateItems [itemA, itemB, itemC, itemA] = [itemA, itemC]
   \<and> map ((!) [itemA, itemB, itemC, itemA])
        (filter (firstOccurrence link [itemA, itemB, itemC, itemA]) [0..<length [itemA, itemB, itemC, itemA]])
       = [itemA, itemC]
   \<and> distinct (map link (deduplicateItems [itemA, itemB, itemC, itemA]))
   \<and> subseq (deduplicateItems [itemA, itemB, itemC, itemA]) [itemA, itemB, itemC, itemA]"
proof -
  note t = deduplicateItems_keeps_first_occurrences [of "[itemA, itemB, itemC, itemA]" itemA itemB]
  have h: "link itemA = link itemB"
    by (simp add: itemA_def itemB_def)
  from t h have two: "deduplicateItems [itemA, itemB] = [itemA]"
    by blast
  have four: "deduplicateItems [itemA, itemB, itemC, itemA] = [itemA, itemC]"
    by (simp add: deduplicateItems_def itemA_def itemB_def itemC_def)
  from t have "map ((!) [itemA, itemB, itemC, itemA])
        (filter (firstOccurrence link [itemA, itemB, itemC, itemA]) [0..<length [itemA, itemB, itemC, itemA]])
       = deduplicateItems [itemA, itemB, itemC, itemA]"
    by simp
  with four have pos: "map ((!) [itemA, itemB, itemC, itemA])
        (filter (firstOccurrence link [itemA, itemB, itemC, itemA]) [0..<length [itemA, itemB, itemC, itemA]])
       = [itemA, itemC]"
    by simp
  from t have d: "distinct (map link (deduplicateItems [itemA, itemB, itemC, itemA]))"
    by blast
  from t have s: "subseq (deduplicateItems [itemA, itemB, itemC, itemA]) [itemA, itemB, itemC, itemA]"
    by blast
  from h two four pos d s show ?thesis by blast
qed

subsection \<open>Per-entry parsing\<close>

lemma parseItems_loop_outcomes:
  "parseItems_loop parseItem validate feedUrl rawItems items errors =
     (items @ successfulItems parseItem validate feedUrl rawItems,
      errors @ collectedFailures parseItem validate feedUrl rawItems)"
  by (induction rawItems arbitrary: items errors)
     (auto simp: successfulItems_def collectedFailures_def entryOutcome_def
        split: sum.splits option.splits)

lemma outcomes_partition:
  "length (successfulItems parseItem validate feedUrl rawItems)
     + length (collectedFailures parseItem validate feedUrl rawItems) = length rawItems"
  by (induction rawItems)
     (auto simp: successfulItems_def collectedFailures_def split: sum.splits option.splits)

lemma hd_collectedFailures:
  "successfulItems parseItem validate feedUrl (r # rs) = [] \<Longrightarrow>
   collectedFailures parseItem validate feedUrl [r]
     = [hd (collectedFailures parseItem validate feedUrl (r # rs))]"
  by (auto simp: successfulItems_def collectedFailures_def split: sum.splits option.splits)

text \<open>
  C2. An entry succeeds when the item parser returns an item and the validator accepts
  it; it fails when the parser throws or the validator throws on the parsed item. The
  failure collected for a failing entry is the thrown value itself when it is a parse
  error, and otherwise a parse error that wraps it, with the feed URL, the entry's
  first raw title (\<^verbatim>\<open>Unknown\<close> when there is no title array) and the cause. Every
  entry is processed and none aborts the batch: the loop ends with the successful items
  and the collected failures, one or the other for each entry, both in entry order. If
  at least one entry succeeds the result is exactly the successful items. If the list
  is non-empty and every entry fails, the first collected failure is raised, which is
  the failure of the first entry. An empty list yields no items.
\<close>

theorem parseItems_collects_failures:
  "parseItems_loop parseItem validate feedUrl rawItems [] []
        = (successfulItems parseItem validate feedUrl rawItems,
           collectedFailures parseItem validate feedUrl rawItems)
   \<and> length (successfulItems parseItem validate feedUrl rawItems)
        + length (collectedFailures parseItem validate feedUrl rawItems) = length rawItems
   \<and> (successfulItems parseItem validate feedUrl rawItems \<noteq> [] \<longrightarrow>
        parseItems parseItem validate rawItems feedUrl
          = Inr (successfulItems parseItem validate feedUrl rawItems))
   \<and> (rawItems \<noteq> [] \<and> successfulItems parseItem validate feedUrl rawItems = [] \<longrightarrow>
        parseItems parseItem validate rawItems feedUrl
          = Inl (hd (collectedFailures parseItem validate feedUrl rawItems))
        \<and> collectedFailures parseItem validate feedUrl [hd rawItems]
          = [hd (collectedFailures parseItem validate feedUrl rawItems)])
   \<and> (rawItems = [] \<longrightarrow> parseItems parseItem validate rawItems feedUrl = Inr [])
   \<and> (parseItem rawItem feedUrl = Inr item \<and> validate item = None \<longrightarrow>
        successfulItems parseItem validate feedUrl [rawItem] = [item]
        \<and> collectedFailures parseItem validate feedUrl [rawItem] = []
        \<and> parseItems parseItem validate [rawItem] feedUrl = Inr [item])
   \<and> (parseItem rawItem feedUrl = Inr item \<and> validate item = Some error \<longrightarrow>
        successfulItems parseItem validate feedUrl [rawItem] = []
        \<and> collectedFailures parseItem validate feedUrl [rawItem] = [collectedError feedUrl rawItem error]
        \<and> parseItems parseItem validate [rawItem] feedUrl = Inl (collectedError feedUrl rawItem error))
   \<and> (parseItem rawItem feedUrl = Inl error \<longrightarrow>
        successfulItems parseItem validate feedUrl [rawItem] = []
        \<and> collectedFailures parseItem validate feedUrl [rawItem] = [collectedError feedUrl rawItem error]
        \<and> parseItems parseItem validate [rawItem] feedUrl = Inl (collectedError feedUrl rawItem error))
   \<and> (instanceofParseError error \<longrightarrow> collectedError feedUrl rawItem error = error)
   \<and> (\<not> instanceofParseError error \<longrightarrow>
        collectedError feedUrl rawItem error
          = ParseError (''Failed to parse item: '' @ errorMessage error) (Some feedUrl)
              (case raw_title rawItem of
                 None \<Rightarrow> Some ''Unknown'' | Some [] \<Rightarrow> None | Some (t # ts) \<Rightarrow> Some t)
              (if instanceofError error then Some error else None))"
proof -
  have loop: "parseItems_loop parseItem validate feedUrl rawItems [] []
        = (successfulItems parseItem validate feedUrl rawItems,
           collectedFailures parseItem validate feedUrl rawItems)"
    by (simp add: parseItems_loop_outcomes)
  have part: "length (successfulItems parseItem validate feedUrl rawItems)
        + length (collectedFailures parseItem validate feedUrl rawItems) = length rawItems"
    by (rule outcomes_partition)
  have a: "successfulItems parseItem validate feedUrl rawItems \<noteq> [] \<Longrightarrow>
      parseItems parseItem validate rawItems feedUrl
        = Inr (successfulItems parseItem validate feedUrl rawItems)"
    by (simp add: parseItems_def loop)
  have b: "rawItems \<noteq> [] \<Longrightarrow> successfulItems parseItem validate feedUrl rawItems = [] \<Longrightarrow>
        parseItems parseItem validate rawItems feedUrl
          = Inl (hd (collectedFailures parseItem validate feedUrl rawItems))"
  proof -
    assume ne: "rawItems \<noteq> []"
      and none: "successfulItems parseItem validate feedUrl rawItems = []"
    from part none
    have "length (collectedFailures parseItem validate feedUrl rawItems) = length rawItems"
      by simp
    with ne have "collectedFailures parseItem validate feedUrl rawItems \<noteq> []"
      by (metis length_0_conv)
    with none show ?thesis by (simp add: parseItems_def loop)
  qed
  have c: "rawItems \<noteq> [] \<Longrightarrow> successfulItems parseItem validate feedUrl rawItems = [] \<Longrightarrow>
        collectedFailures parseItem validate feedUrl [hd rawItems]
          = [hd (collectedFailures parseItem validate feedUrl rawItems)]"
    using hd_collectedFailures[of parseItem validate feedUrl "hd rawItems" "tl rawItems"] by simp
  have d: "rawItems = [] \<Longrightarrow> parseItems parseItem validate rawItems feedUrl = Inr []"
    by (simp add: parseItems_def)
  have one: "parseItems parseItem validate [rawItem] feedUrl
      = (if successfulItems parseItem validate feedUrl [rawItem] = []
         then Inl (hd (collectedFailures parseItem validate feedUrl [rawItem]))
         else Inr (successfulItems parseItem validate feedUrl [rawItem]))"
    using outcomes_partition[of parseItem validate feedUrl "[rawItem]"]
    by (auto simp: parseItems_def parseItems_loop_outcomes)
  have e: "parseItem rawItem feedUrl = Inr item \<and> validate item = None \<longrightarrow>
        successfulItems parseItem validate feedUrl [rawItem] = [item]
        \<and> collectedFailures parseItem validate feedUrl [rawItem] = []
        \<and> parseItems parseItem validate [rawItem] feedUrl = Inr [item]"
    unfolding one by (simp add: successfulItems_def collectedFailures_def)
  have f: "parseItem rawItem feedUrl = Inr item \<and> validate item = Some error \<longrightarrow>
        successfulItems parseItem validate feedUrl [rawItem] = []
        \<and> collectedFailures parseItem validate feedUrl [rawItem] = [collectedError feedUrl rawItem error]
        \<and> parseItems parseItem validate [rawItem] feedUrl = Inl (collectedError feedUrl rawItem error)"
    unfolding one by (simp add: successfulItems_def collectedFailures_def)
  have g: "parseItem rawItem feedUrl = Inl error \<longrightarrow>
        successfulItems parseItem validate feedUrl [rawItem] = []
        \<and> collectedFailures parseItem validate feedUrl [rawItem] = [collectedError feedUrl rawItem error]
        \<and> parseItems parseItem validate [rawItem] feedUrl = Inl (collectedError feedUrl rawItem error)"
    unfolding one by (simp add: successfulItems_def collectedFailures_def)
  have h: "instanceofParseError error \<longrightarrow> collectedError feedUrl rawItem error = error"
    by (simp add: collectedError_def)
  have i: "\<not> instanceofParseError error \<longrightarrow>
        collectedError feedUrl rawItem error
          = ParseError (''Failed to parse item: '' @ errorMessage error) (Some feedUrl)
              (case raw_title rawItem of
                 None \<Rightarrow> Some ''Unknown'' | Some [] \<Rightarrow> None | Some (t # ts) \<Rightarrow> Some t)
              (if instanceofError error then Some error else None)"
    by (simp add: collectedError_def rawTitleOrUnknown_def causeOf_def)
  from a b c d e f g h i loop part show ?thesis by blast
qed

theorem parseItems_collects_failures_witness:
  "titleOnlyParseItem rawBlankLink ''https://example.com/feed''
      = Inr \<lparr>title = ''Blank link'', link = ''  '', publishedAt = 0, links = [], itemId = None,
             rawContent = None, metadata = None\<rparr>
   \<and> validateItem \<lparr>title = ''Blank link'', link = ''  '', publishedAt = 0, links = [], itemId = None,
                    rawContent = None, metadata = None\<rparr>
      = Some (ParseError ''Item validation failed: link is required and must be a non-empty string''
                None (Some ''Blank link'') None)
   \<and> titleOnlyParseItem rawBad ''https://example.com/feed''
      = Inl (ParseError ''Item is missing required field: title''
               (Some ''https://example.com/feed'') (Some ''Unknown'') None)
   \<and> successfulItems titleOnlyParseItem validateItem ''https://example.com/feed''
        [rawBlankLink, rawGood, rawBad]
      = [\<lparr>title = ''Good entry'', link = ''https://example.com/?p=7'', publishedAt = 0,
           links = [], itemId = None, rawContent = None, metadata = None\<rparr>]
   \<and> parseItems titleOnlyParseItem validateItem [rawBlankLink, rawGood, rawBad]
        ''https://example.com/feed''
      = Inr [\<lparr>title = ''Good entry'', link = ''https://example.com/?p=7'', publishedAt = 0,
              links = [], itemId = None, rawContent = None, metadata = None\<rparr>]
   \<and> [rawBlankLink, rawBad] \<noteq> []
   \<and> successfulItems titleOnlyParseItem validateItem ''https://example.com/feed''
        [rawBlankLink, rawBad] = []
   \<and> parseItems titleOnlyParseItem validateItem [rawBlankLink, rawBad] ''https://example.com/feed''
      = Inl (ParseError ''Item validation failed: link is required and must be a non-empty string''
               None (Some ''Blank link'') None)
   \<and> parseItems titleOnlyParseItem throwingValidate [rawGood] ''https://example.com/feed''
      = Inl (ParseError ''Failed to parse item: boom'' (Some ''https://example.com/feed'')
               (Some ''Good entry'') (Some (Error ''boom'')))"
proof -
  let ?url = "''https://example.com/feed''"
  let ?blank = "\<lparr>title = ''Blank link'', link = ''  '', publishedAt = 0, links = [], itemId = None,
                  rawContent = None, metadata = None\<rparr>"
  let ?good = "\<lparr>title = ''Good entry'', link = ''https://example.com/?p=7'', publishedAt = 0,
                 links = [], itemId = None, rawContent = None, metadata = None\<rparr>"
  let ?verr = "ParseError ''Item validation failed: link is required and must be a non-empty string''
                 None (Some ''Blank link'') None"
  have p1: "titleOnlyParseItem rawBlankLink ?url = Inr ?blank"
    by (simp add: titleOnlyParseItem_def rawBlankLink_def)
  have v1: "validateItem ?blank = Some ?verr"
    by (simp add: validateItem_def trim_def isWhitespace_def)
  have p2: "titleOnlyParseItem rawBad ?url
      = Inl (ParseError ''Item is missing required field: title'' (Some ?url) (Some ''Unknown'') None)"
    by (simp add: titleOnlyParseItem_def rawBad_def)
  have p3: "titleOnlyParseItem rawGood ?url = Inr ?good"
    by (simp add: titleOnlyParseItem_def rawGood_def)
  have v3: "validateItem ?good = None"
    by (simp add: validateItem_def trim_def isWhitespace_def)
  have s3: "successfulItems titleOnlyParseItem validateItem ?url [rawBlankLink, rawGood, rawBad] = [?good]"
    by (simp add: successfulItems_def p1 v1 p2 p3 v3)
  note t3 = parseItems_collects_failures [of titleOnlyParseItem validateItem ?url
              "[rawBlankLink, rawGood, rawBad]" rawBlankLink ?blank ?verr]
  from t3 s3 have r3: "parseItems titleOnlyParseItem validateItem [rawBlankLink, rawGood, rawBad] ?url
      = Inr [?good]"
    by simp
  have ne: "[rawBlankLink, rawBad] \<noteq> []" by simp
  have s2: "successfulItems titleOnlyParseItem validateItem ?url [rawBlankLink, rawBad] = []"
    by (simp add: successfulItems_def p1 v1 p2)
  have f2: "hd (collectedFailures titleOnlyParseItem validateItem ?url [rawBlankLink, rawBad]) = ?verr"
    by (simp add: collectedFailures_def p1 v1 p2 collectedError_def)
  note t2 = parseItems_collects_failures [of titleOnlyParseItem validateItem ?url
              "[rawBlankLink, rawBad]" rawBlankLink ?blank ?verr]
  from t2 ne s2 have "parseItems titleOnlyParseItem validateItem [rawBlankLink, rawBad] ?url
      = Inl (hd (collectedFailures titleOnlyParseItem validateItem ?url [rawBlankLink, rawBad]))"
    by blast
  hence r2: "parseItems titleOnlyParseItem validateItem [rawBlankLink, rawBad] ?url = Inl ?verr"
    unfolding f2 .
  note t1 = parseItems_collects_failures [of titleOnlyParseItem throwingValidate ?url
              "[rawGood]" rawGood ?good "Error ''boom''"]
  have v4: "throwingValidate ?good = Some (Error ''boom'')"
    by (simp add: throwingValidate_def)
  have np: "\<not> instanceofParseError (Error ''boom'')" by simp
  from t1 p3 v4 have "parseItems titleOnlyParseItem throwingValidate [rawGood] ?url
      = Inl (collectedError ?url rawGood (Error ''boom''))"
    by blast
  moreover from t1 np have "collectedError ?url rawGood (Error ''boom'')
      = ParseError (''Failed to parse item: '' @ errorMessage (Error ''boom'')) (Some ?url)
              (case raw_title rawGood of
                 None \<Rightarrow> Some ''Unknown'' | Some [] \<Rightarrow> None | Some (t # ts) \<Rightarrow> Some t)
              (if instanceofError (Error ''boom'') then Some (Error ''boom'') else None)"
    by blast
  ultimately have r1: "parseItems titleOnlyParseItem throwingValidate [rawGood] ?url
      = Inl (ParseError ''Failed to parse item: boom'' (Some ?url) (Some ''Good entry'')
               (Some (Error ''boom'')))"
    by (simp add: rawGood_def)
  show ?thesis
    by (rule conjI[OF p1 conjI[OF v1 conjI[OF p2 conjI[OF s3 conjI[OF r3 conjI[OF ne
          conjI[OF s2 conjI[OF r2 r1]]]]]]]])
qed

subsection \<open>Retry with backoff\<close>

lemma delaysFrom_backoff:
  "delaysFrom options (backoffDelay options k) n = map (backoffDelay options) [k..<k + n]"
proof (induction n arbitrary: k)
  case 0
  then show ?case by simp
next
  case (Suc n)
  have "delaysFrom options (backoffDelay options (Suc k)) n = map (backoffDelay options) [Suc k..<Suc k + n]"
    by (rule Suc.IH)
  then show ?case by (simp add: upt_conv_Cons del: upt_Suc)
qed

lemma executeWithRetry_loop_probe:
  "attempt \<le> maxAttempts \<Longrightarrow>
   executeWithRetry_loop options probe_delay (probe_operation operation) maxAttempts attempt
      currentDelay lastError p = (r, p') \<Longrightarrow>
   \<exists>rs. outcomes p' = outcomes p @ rs \<and> rs \<noteq> []
      \<and> int (length rs) \<le> maxAttempts - attempt + 1
      \<and> (\<forall>x \<in> set (butlast rs). isl x)
      \<and> (case last rs of
            Inr v \<Rightarrow> r = Inr v
          | Inl e \<Rightarrow> int (length rs) = maxAttempts - attempt + 1 \<and> r = Inl (toLastError e))
      \<and> sleeps p' = sleeps p @ delaysFrom options currentDelay (length rs - 1)"
proof (induction "nat (maxAttempts - attempt)" arbitrary: attempt currentDelay lastError p)
  case 0
  hence eq: "attempt = maxAttempts" by simp
  obtain res s1 where op: "probe_operation operation p = (res, s1)"
    by (cases "probe_operation operation p")
  hence s1: "outcomes s1 = outcomes p @ [res]" "sleeps s1 = sleeps p"
    by (auto simp: probe_operation_def split: prod.splits)
  from "0.prems"(2) op eq
  have "(case res of Inr v \<Rightarrow> r = Inr v | Inl e \<Rightarrow> r = Inl (toLastError e)) \<and> p' = s1"
    by (subst (asm) executeWithRetry_loop.simps) (auto split: sum.splits)
  with s1 eq show ?case by (intro exI[of _ "[res]"]) (auto split: sum.splits)
next
  case (Suc n)
  hence lt: "attempt < maxAttempts" by simp
  obtain res s1 where op: "probe_operation operation p = (res, s1)"
    by (cases "probe_operation operation p")
  hence s1: "outcomes s1 = outcomes p @ [res]" "sleeps s1 = sleeps p"
    by (auto simp: probe_operation_def split: prod.splits)
  show ?case
  proof (cases res)
    case (Inr v)
    from Suc.prems(2) op Inr lt have "r = Inr v \<and> p' = s1"
      by (subst (asm) executeWithRetry_loop.simps) auto
    with s1 Inr lt show ?thesis by (intro exI[of _ "[res]"]) auto
  next
    case (Inl e)
    let ?d = "min (currentDelay * backoffMultiplier options) (maxDelay options)"
    let ?s2 = "probe_delay currentDelay s1"
    have n: "n = nat (maxAttempts - (attempt + 1))" using Suc.hyps(2) by simp
    have le: "attempt + 1 \<le> maxAttempts" using lt by simp
    have run: "executeWithRetry_loop options probe_delay (probe_operation operation) maxAttempts
            (attempt + 1) ?d (toLastError e) ?s2 = (r, p')"
      using Suc.prems(2) op Inl lt by (subst (asm) executeWithRetry_loop.simps) auto
    from Suc.hyps(1)[OF n le run]
    obtain rs where rs: "outcomes p' = outcomes ?s2 @ rs" "rs \<noteq> []"
        "int (length rs) \<le> maxAttempts - (attempt + 1) + 1"
        "\<forall>x \<in> set (butlast rs). isl x"
        "case last rs of
          Inr v \<Rightarrow> r = Inr v
        | Inl e \<Rightarrow> int (length rs) = maxAttempts - (attempt + 1) + 1 \<and> r = Inl (toLastError e)"
        "sleeps p' = sleeps ?s2 @ delaysFrom options ?d (length rs - 1)"
      by auto
    have s2: "outcomes ?s2 = outcomes p @ [res]" "sleeps ?s2 = sleeps p @ [currentDelay]"
      using s1 by (auto simp: probe_delay_def)
    have len: "length (res # rs) - 1 = Suc (length rs - 1)" using rs(2) by (cases rs) auto
    have a: "outcomes p' = outcomes p @ (res # rs)" using rs(1) s2 by simp
    have b: "int (length (res # rs)) \<le> maxAttempts - attempt + 1" using rs(3) by simp
    have c: "\<forall>x \<in> set (butlast (res # rs)). isl x" using rs(2,4) Inl by auto
    have d: "case last (res # rs) of
          Inr v \<Rightarrow> r = Inr v
        | Inl e \<Rightarrow> int (length (res # rs)) = maxAttempts - attempt + 1 \<and> r = Inl (toLastError e)"
      using rs(2,5) by (auto split: sum.splits)
    have e: "sleeps p' = sleeps p @ delaysFrom options currentDelay (length (res # rs) - 1)"
      unfolding len using rs(6) s2 by simp
    from a b c d e show ?thesis by (intro exI[of _ "res # rs"]) blast
  qed
qed

text \<open>
  C5, as the code has it. For \<open>maxAttempts \<ge> 1\<close> the handler runs the operation at
  least once and at most \<open>maxAttempts\<close> times (\<open>rs\<close> lists the results of its runs);
  every run but the last one failed; if the last run succeeded its result is returned;
  if it failed, all \<open>maxAttempts\<close> runs were made and the value raised is the last
  run's error: the error itself when it is an \<^verbatim>\<open>Error\<close> instance, otherwise a new
  \<^verbatim>\<open>Error\<close> whose message is the string form of the thrown value. Between
  consecutive runs it sleeps once, for the delays of the schedule: the initial delay
  first, then each time the previous delay times the factor, capped at the maximum;
  there is no sleep after the last run. For \<open>maxAttempts < 1\<close> it fails at once and
  the operation is not run (the state, with the record of runs and sleeps, is
  untouched).
\<close>

theorem executeWithRetry_contract:
  "(1 \<le> maxAttempts \<and>
      executeWithRetry options probe_delay (probe_operation operation) maxAttempts p = (r, p') \<longrightarrow>
      (\<exists>rs. outcomes p' = outcomes p @ rs \<and> rs \<noteq> []
         \<and> int (length rs) \<le> maxAttempts
         \<and> (\<forall>x \<in> set (butlast rs). isl x)
         \<and> (case last rs of
               Inr v \<Rightarrow> r = Inr v
             | Inl e \<Rightarrow> int (length rs) = maxAttempts
                        \<and> r = Inl (if instanceofError e then e else Error (errorMessage e)))
         \<and> sleeps p' = sleeps p @ map (backoffDelay options) [0..<length rs - 1]))
   \<and> (maxAttempts < 1 \<longrightarrow>
        executeWithRetry options probe_delay (probe_operation operation) maxAttempts p
          = (Inl (Error ''maxAttempts must be at least 1''), p))"
proof -
  have a: "\<exists>rs. outcomes p' = outcomes p @ rs \<and> rs \<noteq> []
         \<and> int (length rs) \<le> maxAttempts
         \<and> (\<forall>x \<in> set (butlast rs). isl x)
         \<and> (case last rs of
               Inr v \<Rightarrow> r = Inr v
             | Inl e \<Rightarrow> int (length rs) = maxAttempts
                        \<and> r = Inl (if instanceofError e then e else Error (errorMessage e)))
         \<and> sleeps p' = sleeps p @ map (backoffDelay options) [0..<length rs - 1]"
    if ge: "1 \<le> maxAttempts"
      and run: "executeWithRetry options probe_delay (probe_operation operation) maxAttempts p = (r, p')"
  proof -
    from ge run
    have "executeWithRetry_loop options probe_delay (probe_operation operation) maxAttempts 1
            (initialDelay options) (NonError ''undefined'') p = (r, p')"
      by (simp add: executeWithRetry_def)
    from executeWithRetry_loop_probe[OF ge this]
    obtain rs where rs: "outcomes p' = outcomes p @ rs" "rs \<noteq> []"
        "int (length rs) \<le> maxAttempts - 1 + 1"
        "\<forall>x \<in> set (butlast rs). isl x"
        "case last rs of
           Inr v \<Rightarrow> r = Inr v
         | Inl e \<Rightarrow> int (length rs) = maxAttempts - 1 + 1 \<and> r = Inl (toLastError e)"
        "sleeps p' = sleeps p @ delaysFrom options (initialDelay options) (length rs - 1)"
      by blast
    have "delaysFrom options (backoffDelay options 0) (length rs - 1)
            = map (backoffDelay options) [0..<0 + (length rs - 1)]"
      by (rule delaysFrom_backoff)
    hence sl: "sleeps p' = sleeps p @ map (backoffDelay options) [0..<length rs - 1]"
      using rs(6) by simp
    have la: "case last rs of
               Inr v \<Rightarrow> r = Inr v
             | Inl e \<Rightarrow> int (length rs) = maxAttempts
                        \<and> r = Inl (if instanceofError e then e else Error (errorMessage e))"
      using rs(5) by (auto simp: toLastError_def split: sum.splits)
    have le: "int (length rs) \<le> maxAttempts" using rs(3) by simp
    from rs(1,2,4) le la sl show ?thesis by blast
  qed
  have b: "executeWithRetry options probe_delay (probe_operation operation) maxAttempts p
          = (Inl (Error ''maxAttempts must be at least 1''), p)" if "maxAttempts < 1"
    using that by (simp add: executeWithRetry_def)
  from a b show ?thesis by blast
qed

theorem executeWithRetry_contract_witness:
  "(1::int) \<le> 3
   \<and> executeWithRetry defaultRetryOptions probe_delay (probe_operation flakyOperation) 3 freshProbe
      = (Inr 2, \<lparr>inner = 3, outcomes = [Inl (Error ''boom''), Inl (Error ''boom''), Inr 2],
                 sleeps = [1000, 2000]\<rparr>)
   \<and> (\<exists>rs. [Inl (Error ''boom''), Inl (Error ''boom''), Inr (2::nat)] = rs \<and> rs \<noteq> []
         \<and> int (length rs) \<le> 3
         \<and> [1000, 2000] = map (backoffDelay defaultRetryOptions) [0..<length rs - 1])
   \<and> (0::int) < 1
   \<and> executeWithRetry defaultRetryOptions probe_delay (probe_operation flakyOperation) 0 freshProbe
      = (Inl (Error ''maxAttempts must be at least 1''), freshProbe)"
proof -
  let ?p = "\<lparr>inner = 3::nat, outcomes = [Inl (Error ''boom''), Inl (Error ''boom''), Inr (2::nat)],
              sleeps = [1000, 2000]\<rparr>"
  have run: "executeWithRetry defaultRetryOptions probe_delay (probe_operation flakyOperation) 3
               freshProbe = (Inr 2, ?p)"
    by (simp add: executeWithRetry_def executeWithRetry_loop.simps probe_operation_def
          probe_delay_def flakyOperation_def freshProbe_def defaultRetryOptions_def toLastError_def)
  note t = executeWithRetry_contract [of 3 defaultRetryOptions flakyOperation freshProbe "Inr 2" ?p]
  from t run
  obtain rs where rs: "outcomes ?p = outcomes freshProbe @ rs" "rs \<noteq> []" "int (length rs) \<le> 3"
      "sleeps ?p = sleeps freshProbe @ map (backoffDelay defaultRetryOptions) [0..<length rs - 1]"
    by auto
  hence ex: "\<exists>rs. [Inl (Error ''boom''), Inl (Error ''boom''), Inr (2::nat)] = rs \<and> rs \<noteq> []
         \<and> int (length rs) \<le> 3
         \<and> [1000, 2000] = map (backoffDelay defaultRetryOptions) [0..<length rs - 1]"
    by (simp add: freshProbe_def)
  note t0 = executeWithRetry_contract [of 0 defaultRetryOptions flakyOperation freshProbe]
  from t0 have zero: "executeWithRetry defaultRetryOptions probe_delay (probe_operation flakyOperation)
        0 freshProbe = (Inl (Error ''maxAttempts must be at least 1''), freshProbe)"
    by simp
  have one: "(1::int) \<le> 3" and z: "(0::int) < 1"
    by simp_all
  show ?thesis
    by (rule conjI[OF one conjI[OF run conjI[OF ex conjI[OF z zero]]]])
qed

text \<open>
  The claim as stated ("the error of the last attempt is re-raised unchanged") fails
  for an operation that rejects with a value that is not an \<^verbatim>\<open>Error\<close>: with one
  attempt allowed, the string \<^verbatim>\<open>'boom'\<close> comes back as \<^verbatim>\<open>new Error('boom')\<close>.
\<close>

theorem executeWithRetry_unchanged_counterexample:
  "outcomes (snd (executeWithRetry defaultRetryOptions probe_delay
       (probe_operation rejectsWithString) 1 freshProbe)) = [Inl (NonError ''boom'')]
   \<and> fst (executeWithRetry defaultRetryOptions probe_delay
       (probe_operation rejectsWithString) 1 freshProbe) = Inl (Error ''boom'')
   \<and> fst (executeWithRetry defaultRetryOptions probe_delay
       (probe_operation rejectsWithString) 1 freshProbe) \<noteq> Inl (NonError ''boom'')"
  by (simp add: executeWithRetry_def executeWithRetry_loop.simps probe_operation_def
        probe_delay_def rejectsWithString_def freshProbe_def defaultRetryOptions_def toLastError_def)

subsection \<open>Title cleaner\<close>

lemma trim_trimEnd: "trim s = trimEnd (dropWhile isWhitespace s)"
  by (simp add: trim_def trimEnd_def)

lemma trimEnd_Nil: "trimEnd [] = []"
  by (simp add: trimEnd_def)

lemma trimEnd_Cons:
  "trimEnd (c # cs) = (if \<forall>x \<in> set (c # cs). isWhitespace x then [] else c # trimEnd cs)"
  by (auto simp: trimEnd_def dropWhile_append)

lemma dropWhile_trimEnd:
  "dropWhile isWhitespace (trimEnd cs) = trimEnd (dropWhile isWhitespace cs)"
proof (induction cs)
  case Nil
  then show ?case by (simp add: trimEnd_Nil)
next
  case (Cons c cs)
  show ?case
  proof (cases "\<forall>x \<in> set (c # cs). isWhitespace x")
    case True
    hence dw: "dropWhile isWhitespace cs = []" by simp
    from True show ?thesis by (simp add: trimEnd_Cons trimEnd_Nil dw)
  next
    case False
    with Cons show ?thesis by (auto simp: trimEnd_Cons)
  qed
qed

lemma collapse_nonws_iff:
  "(\<exists>x \<in> set (collapseWhitespace s). \<not> isWhitespace x) \<longleftrightarrow> (\<exists>x \<in> set s. \<not> isWhitespace x)"
proof (induction s rule: collapseWhitespace.induct)
  case 1
  then show ?case by simp
next
  case (2 c cs)
  show ?case
  proof (cases "isWhitespace c")
    case True
    have sp: "isWhitespace (CHR 0x20)" by (simp add: isWhitespace_def)
    have "(\<exists>x \<in> set (dropWhile isWhitespace cs). \<not> isWhitespace x) \<longleftrightarrow> (\<exists>x \<in> set cs. \<not> isWhitespace x)"
      by (induction cs) auto
    with 2 True sp show ?thesis by simp
  next
    case False
    with 2 show ?thesis by simp
  qed
qed

lemma collapse_trimEnd:
  "collapseWhitespace (trimEnd s) = trimEnd (collapseWhitespace s)"
proof (induction s rule: collapseWhitespace.induct)
  case 1
  then show ?case by (simp add: trimEnd_Nil)
next
  case (2 c cs)
  have sp: "isWhitespace (CHR 0x20)" by (simp add: isWhitespace_def)
  show ?case
  proof (cases "isWhitespace c")
    case True
    show ?thesis
    proof (cases "\<forall>x \<in> set cs. isWhitespace x")
      case all: True
      hence dw: "dropWhile isWhitespace cs = []" by simp
      have "trimEnd (c # cs) = []" using True all by (simp add: trimEnd_Cons)
      moreover have "collapseWhitespace (c # cs) = [CHR 0x20]" using True by (simp add: dw)
      moreover have "trimEnd [CHR 0x20] = []" using sp by (simp add: trimEnd_Cons)
      ultimately show ?thesis by simp
    next
      case some: False
      hence "\<exists>x \<in> set (dropWhile isWhitespace cs). \<not> isWhitespace x"
        by (induction cs) auto
      hence ne: "\<not> (\<forall>x \<in> set (collapseWhitespace (dropWhile isWhitespace cs)). isWhitespace x)"
        using collapse_nonws_iff[of "dropWhile isWhitespace cs"] by blast
      have "collapseWhitespace (trimEnd (c # cs)) = collapseWhitespace (c # trimEnd cs)"
        using some by (auto simp: trimEnd_Cons)
      also have "\<dots> = CHR 0x20 # collapseWhitespace (dropWhile isWhitespace (trimEnd cs))"
        using True by simp
      also have "\<dots> = CHR 0x20 # trimEnd (collapseWhitespace (dropWhile isWhitespace cs))"
        using 2(1)[OF True] by (simp add: dropWhile_trimEnd)
      also have "\<dots> = trimEnd (CHR 0x20 # collapseWhitespace (dropWhile isWhitespace cs))"
        using ne by (auto simp: trimEnd_Cons)
      also have "\<dots> = trimEnd (collapseWhitespace (c # cs))"
        using True by simp
      finally show ?thesis .
    qed
  next
    case False
    with 2 show ?thesis by (simp add: trimEnd_Cons)
  qed
qed

lemma dropWhile_collapse_start:
  "t = [] \<or> \<not> isWhitespace (hd t) \<Longrightarrow> dropWhile isWhitespace (collapseWhitespace t) = collapseWhitespace t"
  by (cases t) auto

lemma collapse_dropWhile:
  "collapseWhitespace (dropWhile isWhitespace s) = dropWhile isWhitespace (collapseWhitespace s)"
proof (cases s)
  case Nil
  then show ?thesis by simp
next
  case (Cons c cs)
  have sp: "isWhitespace (CHR 0x20)" by (simp add: isWhitespace_def)
  have st: "dropWhile isWhitespace cs = [] \<or> \<not> isWhitespace (hd (dropWhile isWhitespace cs))"
    by (metis hd_dropWhile)
  show ?thesis
  proof (cases "isWhitespace c")
    case True
    with Cons sp show ?thesis by (simp add: dropWhile_collapse_start[OF st])
  next
    case False
    with Cons show ?thesis by simp
  qed
qed

lemma collapse_trim_commute: "collapseWhitespace (trim s) = trim (collapseWhitespace s)"
  by (simp add: trim_trimEnd collapse_trimEnd collapse_dropWhile)

lemma trim_idem: "trim (trim s) = trim s"
proof -
  have "trimEnd (trimEnd x) = trimEnd x" for x
    by (simp add: trimEnd_def)
  thus ?thesis
    by (simp add: trim_trimEnd dropWhile_trimEnd)
qed

lemma collapseWhitespace_spaces:
  "x \<in> set (collapseWhitespace s) \<Longrightarrow> isWhitespace x \<Longrightarrow> x = CHR 0x20"
  by (induction s rule: collapseWhitespace.induct) (auto split: if_splits)

lemma set_trim: "set (trim s) \<subseteq> set s"
  by (auto simp: trim_def dest!: set_dropWhileD)

text \<open>
  C8. With no string or an empty string the result is the empty string. Otherwise the
  prefix pattern is applied to the title, then the suffix pattern to the result, each
  only if present; a pattern whose application throws leaves the title as it stood
  before that pattern; then every whitespace run is collapsed to one space and both
  ends are trimmed (the code trims first and collapses second, which gives the same
  text). The result has no whitespace at either end and its only whitespace
  characters are spaces. The sample title with no patterns gives
  \<^verbatim>\<open>Sample Title with\<close>.
\<close>

theorem cleanTitle_contract:
  "cleanTitle JsOther options = []
   \<and> cleanTitle (JsString []) options = []
   \<and> (t \<noteq> [] \<longrightarrow>
        cleanTitle (JsString t) (Some opts)
          = trim (collapseWhitespace
              (removePattern (suffixPattern opts) (removePattern (prefixPattern opts) t)))
        \<and> cleanTitle (JsString t) None = trim (collapseWhitespace t))
   \<and> removePattern None s = s
   \<and> (replace s = Inr replaced \<longrightarrow> removePattern (Some replace) s = replaced)
   \<and> (replace s = Inl error \<longrightarrow> removePattern (Some replace) s = s)
   \<and> trim (cleanTitle v options) = cleanTitle v options
   \<and> (\<forall>c \<in> set (cleanTitle v options). isWhitespace c \<longrightarrow> c = CHR 0x20)
   \<and> cleanTitle (JsString (''Sample    Title'' @ [CHR 0x0A, CHR 0x09] @ ''with'')) None
        = ''Sample Title with''"
proof -
  have 1: "cleanTitle JsOther options = []" "cleanTitle (JsString []) options = []"
    by (simp_all add: cleanTitle_def)
  have none: "removePattern None x = x" for x
    by (simp add: removePattern_def)
  have 2: "t \<noteq> [] \<longrightarrow>
        cleanTitle (JsString t) (Some opts)
          = trim (collapseWhitespace
              (removePattern (suffixPattern opts) (removePattern (prefixPattern opts) t)))
        \<and> cleanTitle (JsString t) None = trim (collapseWhitespace t)"
    by (simp add: cleanTitle_def collapse_trim_commute Let_def none)
  have 3: "removePattern None s = s"
    "replace s = Inr replaced \<longrightarrow> removePattern (Some replace) s = replaced"
    "replace s = Inl error \<longrightarrow> removePattern (Some replace) s = s"
    by (simp_all add: removePattern_def)
  have shape: "\<exists>x. cleanTitle v options = trim (collapseWhitespace x)"
  proof (cases v)
    case (JsString u)
    show ?thesis
    proof (cases "u = []")
      case True
      have "trim (collapseWhitespace []) = []" by (simp add: trim_def)
      with True JsString show ?thesis by (metis 1(2))
    next
      case False
      with JsString show ?thesis
        by (auto simp: cleanTitle_def collapse_trim_commute Let_def)
    qed
  next
    case JsOther
    have "trim (collapseWhitespace []) = []" by (simp add: trim_def)
    with JsOther show ?thesis by (metis 1(1))
  qed
  then obtain x where x: "cleanTitle v options = trim (collapseWhitespace x)" by blast
  have 4: "trim (cleanTitle v options) = cleanTitle v options"
    unfolding x by (rule trim_idem)
  have 5: "\<forall>c \<in> set (cleanTitle v options). isWhitespace c \<longrightarrow> c = CHR 0x20"
    unfolding x using set_trim[of "collapseWhitespace x"] collapseWhitespace_spaces[of _ x] by blast
  have 6: "cleanTitle (JsString (''Sample    Title'' @ [CHR 0x0A, CHR 0x09] @ ''with'')) None
        = ''Sample Title with''"
    by (simp add: cleanTitle_def removePattern_def trim_def isWhitespace_def)
  from 1 2 3 4 5 6 show ?thesis by blast
qed

theorem cleanTitle_contract_witness:
  "''[Site]   A  b '' \<noteq> []
   \<and> cleanTitle (JsString ''[Site]   A  b '')
        (Some \<lparr>suffixPattern = Some throwingPattern, prefixPattern = Some dropSitePrefix\<rparr>)
      = ''A b''
   \<and> dropSitePrefix ''[Site]   A  b '' = Inr ''  A  b ''
   \<and> removePattern (Some dropSitePrefix) ''[Site]   A  b '' = ''  A  b ''
   \<and> throwingPattern ''  A  b '' = Inl (Error ''Invalid regular expression'')
   \<and> removePattern (Some throwingPattern) ''  A  b '' = ''  A  b ''
   \<and> trim (collapseWhitespace ''  A  b '') = ''A b''
   \<and> cleanTitle (JsString sampleTitle) None = ''Sample Title with''"
proof -
  let ?opts = "\<lparr>suffixPattern = Some throwingPattern, prefixPattern = Some dropSitePrefix\<rparr>"
  note t = cleanTitle_contract [of "Some ?opts" "''[Site]   A  b ''" ?opts "''[Site]   A  b ''"
             dropSitePrefix "''  A  b ''" "Error ''Invalid regular expression''" JsOther]
  note u = cleanTitle_contract [of "Some ?opts" "''[Site]   A  b ''" ?opts "''  A  b ''"
             throwingPattern "''  A  b ''" "Error ''Invalid regular expression''" JsOther]
  have ne: "''[Site]   A  b '' \<noteq> []" by simp
  have p: "dropSitePrefix ''[Site]   A  b '' = Inr ''  A  b ''"
    by (simp add: dropSitePrefix_def)
  have q: "throwingPattern ''  A  b '' = Inl (Error ''Invalid regular expression'')"
    by (simp add: throwingPattern_def)
  from t p have rp: "removePattern (Some dropSitePrefix) ''[Site]   A  b '' = ''  A  b ''"
    by blast
  from u q have rq: "removePattern (Some throwingPattern) ''  A  b '' = ''  A  b ''"
    by blast
  have n: "trim (collapseWhitespace ''  A  b '') = ''A b''"
    by (simp add: trim_def isWhitespace_def)
  from t ne have "cleanTitle (JsString ''[Site]   A  b '') (Some ?opts)
      = trim (collapseWhitespace (removePattern (suffixPattern ?opts)
          (removePattern (prefixPattern ?opts) ''[Site]   A  b '')))"
    by blast
  hence c: "cleanTitle (JsString ''[Site]   A  b '') (Some ?opts) = ''A b''"
    using rp rq n by simp
  from t have s: "cleanTitle (JsString sampleTitle) None = ''Sample Title with''"
    unfolding sampleTitle_def by blast
  show ?thesis
    by (rule conjI[OF ne conjI[OF c conjI[OF p conjI[OF rp conjI[OF q conjI[OF rq conjI[OF n s]]]]]]])
qed

subsection \<open>Link extractor\<close>

lemma uniqueLinks_positions:
  "uniqueLinks ls seen =
     map ((!) ls) (filter (\<lambda>i. ls ! i \<notin> seen \<and> firstOccurrence (\<lambda>l. l) ls i) [0..<length ls])"
proof (induction ls arbitrary: seen)
  case Nil
  then show ?case by simp
next
  case (Cons x xs)
  show ?case
  proof (cases "x \<in> seen")
    case True
    have "filter (\<lambda>i. xs ! i \<notin> seen \<and> firstOccurrence (\<lambda>l. l) xs i) [0..<length xs] =
          filter (\<lambda>i. xs ! i \<notin> seen \<and> xs ! i \<noteq> x \<and> firstOccurrence (\<lambda>l. l) xs i) [0..<length xs]"
      using True by (intro filter_cong) auto
    with True show ?thesis
      unfolding upt_length_Cons
      by (simp add: Cons.IH firstOccurrence_0 firstOccurrence_Suc filter_map o_def del: upt_Suc)
  next
    case False
    have "filter (\<lambda>i. xs ! i \<notin> insert x seen \<and> firstOccurrence (\<lambda>l. l) xs i) [0..<length xs] =
          filter (\<lambda>i. xs ! i \<notin> seen \<and> xs ! i \<noteq> x \<and> firstOccurrence (\<lambda>l. l) xs i) [0..<length xs]"
      by (intro filter_cong) auto
    with False show ?thesis
      unfolding upt_length_Cons
      by (simp add: Cons.IH firstOccurrence_0 firstOccurrence_Suc filter_map o_def del: upt_Suc)
  qed
qed

lemma uniqueLinks_set: "set (uniqueLinks ls seen) = set ls - seen"
  by (induction ls arbitrary: seen) auto

lemma uniqueLinks_distinct: "distinct (uniqueLinks ls seen)"
  by (induction ls arbitrary: seen) (auto simp: uniqueLinks_set)

lemma uniqueLinks_subseq: "subseq (uniqueLinks ls seen) ls"
  by (induction ls arbitrary: seen) auto

lemma trim_Nil: "trim [] = []"
  by (simp add: trim_def)

lemma collectHrefs_trimmed:
  "collectHrefs hrefs =
     filter (\<lambda>l. l \<noteq> []) (map trim (concat (map (\<lambda>href. case href of None \<Rightarrow> [] | Some x \<Rightarrow> [x]) hrefs)))"
  by (induction hrefs rule: collectHrefs.induct) (auto simp: trim_Nil)

lemma collectHrefs_set:
  "set (collectHrefs hrefs) = {trim x | x. Some x \<in> set hrefs \<and> trim x \<noteq> []}"
  by (induction hrefs rule: collectHrefs.induct) (auto simp: trim_Nil)

text \<open>
  C9, as the code has it. The result is a plain sequence for every input and every
  behaviour of the HTML parser: nothing is thrown. A value that is not a string, the
  empty string, and a document on which the parser throws give the empty sequence.
  Otherwise the result is the trimmed href of every anchor that has one, empty values
  discarded, restricted to the first occurrence of each value in document order: no
  duplicates, every value kept, order preserved. Three anchors of which the first and
  the third carry the same href give two entries, in original order.
\<close>

theorem extractLinks_contract:
  "extractLinks load JsOther = []
   \<and> extractLinks load (JsString []) = []
   \<and> (load h = Inl e \<longrightarrow> extractLinks load (JsString h) = [])
   \<and> (h \<noteq> [] \<and> load h = Inr hrefs \<longrightarrow>
        extractLinks load (JsString h)
          = map ((!) (collectHrefs hrefs))
              (filter (firstOccurrence (\<lambda>l. l) (collectHrefs hrefs)) [0..<length (collectHrefs hrefs)])
        \<and> collectHrefs hrefs
          = filter (\<lambda>l. l \<noteq> [])
              (map trim (concat (map (\<lambda>href. case href of None \<Rightarrow> [] | Some x \<Rightarrow> [x]) hrefs)))
        \<and> distinct (extractLinks load (JsString h))
        \<and> set (extractLinks load (JsString h)) = {trim x | x. Some x \<in> set hrefs \<and> trim x \<noteq> []}
        \<and> subseq (extractLinks load (JsString h)) (collectHrefs hrefs))
   \<and> (h \<noteq> [] \<and> load h = Inr [Some a, Some b, Some a] \<and> trim a \<noteq> [] \<and> trim b \<noteq> []
        \<and> trim a \<noteq> trim b \<longrightarrow> extractLinks load (JsString h) = [trim a, trim b])"
proof -
  have 1: "extractLinks load JsOther = []" "extractLinks load (JsString []) = []"
    by (simp_all add: extractLinks_def)
  have 2: "load h = Inl e \<longrightarrow> extractLinks load (JsString h) = []"
    by (simp add: extractLinks_def)
  have 3: "extractLinks load (JsString h) = uniqueLinks (collectHrefs hrefs) {}"
    if "h \<noteq> []" "load h = Inr hrefs" for hrefs
    using that by (simp add: extractLinks_def)
  have 4: "h \<noteq> [] \<and> load h = Inr hrefs \<longrightarrow>
        extractLinks load (JsString h)
          = map ((!) (collectHrefs hrefs))
              (filter (firstOccurrence (\<lambda>l. l) (collectHrefs hrefs)) [0..<length (collectHrefs hrefs)])
        \<and> collectHrefs hrefs
          = filter (\<lambda>l. l \<noteq> [])
              (map trim (concat (map (\<lambda>href. case href of None \<Rightarrow> [] | Some x \<Rightarrow> [x]) hrefs)))
        \<and> distinct (extractLinks load (JsString h))
        \<and> set (extractLinks load (JsString h)) = {trim x | x. Some x \<in> set hrefs \<and> trim x \<noteq> []}
        \<and> subseq (extractLinks load (JsString h)) (collectHrefs hrefs)"
  proof (intro impI, elim conjE)
    assume h: "h \<noteq> []" "load h = Inr hrefs"
    note eq = 3[OF h]
    have a: "extractLinks load (JsString h)
          = map ((!) (collectHrefs hrefs))
              (filter (firstOccurrence (\<lambda>l. l) (collectHrefs hrefs)) [0..<length (collectHrefs hrefs)])"
      unfolding eq by (simp add: uniqueLinks_positions)
    have b: "collectHrefs hrefs
          = filter (\<lambda>l. l \<noteq> [])
              (map trim (concat (map (\<lambda>href. case href of None \<Rightarrow> [] | Some x \<Rightarrow> [x]) hrefs)))"
      by (rule collectHrefs_trimmed)
    have c: "distinct (extractLinks load (JsString h))"
      unfolding eq by (rule uniqueLinks_distinct)
    have d: "set (extractLinks load (JsString h)) = {trim x | x. Some x \<in> set hrefs \<and> trim x \<noteq> []}"
      unfolding eq by (simp add: uniqueLinks_set collectHrefs_set)
    have e: "subseq (extractLinks load (JsString h)) (collectHrefs hrefs)"
      unfolding eq by (rule uniqueLinks_subseq)
    from a b c d e show "extractLinks load (JsString h)
          = map ((!) (collectHrefs hrefs))
              (filter (firstOccurrence (\<lambda>l. l) (collectHrefs hrefs)) [0..<length (collectHrefs hrefs)])
        \<and> collectHrefs hrefs
          = filter (\<lambda>l. l \<noteq> [])
              (map trim (concat (map (\<lambda>href. case href of None \<Rightarrow> [] | Some x \<Rightarrow> [x]) hrefs)))
        \<and> distinct (extractLinks load (JsString h))
        \<and> set (extractLinks load (JsString h)) = {trim x | x. Some x \<in> set hrefs \<and> trim x \<noteq> []}
        \<and> subseq (extractLinks load (JsString h)) (collectHrefs hrefs)"
      by blast
  qed
  have 5: "h \<noteq> [] \<and> load h = Inr [Some a, Some b, Some a] \<and> trim a \<noteq> [] \<and> trim b \<noteq> []
        \<and> trim a \<noteq> trim b \<longrightarrow> extractLinks load (JsString h) = [trim a, trim b]"
    by (auto simp: 3 trim_Nil)
  from 1 2 4 5 show ?thesis by blast
qed

theorem extractLinks_contract_witness:
  "threeAnchorsHtml \<noteq> []
   \<and> sampleLoad threeAnchorsHtml
       = Inr [Some ''https://a.example/x'', Some '' magnet:?xt=1 '', Some ''https://a.example/x'', None]
   \<and> extractLinks sampleLoad (JsString threeAnchorsHtml) = [''https://a.example/x'', ''magnet:?xt=1'']
   \<and> distinct (extractLinks sampleLoad (JsString threeAnchorsHtml))
   \<and> sampleLoad ''throw'' = Inl (Error ''parse failure'')
   \<and> extractLinks sampleLoad (JsString ''throw'') = []"
proof -
  let ?hrefs = "[Some ''https://a.example/x'', Some '' magnet:?xt=1 '', Some ''https://a.example/x'', None]"
  note t = extractLinks_contract [of sampleLoad threeAnchorsHtml "Error ''parse failure''" ?hrefs]
  note u = extractLinks_contract [of sampleLoad "''throw''" "Error ''parse failure''"]
  have ne: "threeAnchorsHtml \<noteq> []"
    by (simp add: threeAnchorsHtml_def)
  have l: "sampleLoad threeAnchorsHtml = Inr ?hrefs"
    by (simp add: sampleLoad_def)
  have r: "extractLinks sampleLoad (JsString threeAnchorsHtml) = [''https://a.example/x'', ''magnet:?xt=1'']"
    using ne by (simp add: extractLinks_def l trim_def isWhitespace_def)
  from t ne l have d: "distinct (extractLinks sampleLoad (JsString threeAnchorsHtml))"
    by blast
  have th: "sampleLoad ''throw'' = Inl (Error ''parse failure'')"
    by (simp add: sampleLoad_def threeAnchorsHtml_def unclosedTagHtml_def)
  from u th have e: "extractLinks sampleLoad (JsString ''throw'') = []"
    by blast
  show ?thesis
    by (rule conjI[OF ne conjI[OF l conjI[OF r conjI[OF d conjI[OF th e]]]]])
qed

text \<open>
  The claim as stated ("for malformed input it returns an empty sequence") fails on
  the malformed document of the package's own test: the parser recovers the anchor
  and the extractor returns its href.
\<close>

theorem extractLinks_malformed_counterexample:
  "sampleLoad unclosedTagHtml = Inr [Some ''test'']
   \<and> extractLinks sampleLoad (JsString unclosedTagHtml) = [''test'']
   \<and> extractLinks sampleLoad (JsString unclosedTagHtml) \<noteq> []"
  by (simp add: extractLinks_def sampleLoad_def unclosedTagHtml_def threeAnchorsHtml_def
        trim_def isWhitespace_def)

subsection \<open>The pool: initialization\<close>

lemma launchAll_length: "length (fst (launchAll w ms)) = length ms"
proof (induction ms arbitrary: w)
  case Nil
  then show ?case by simp
next
  case (Cons m ms)
  obtain r m1 w1 where l: "launch w m = (r, m1, w1)" by (cases "launch w m") auto
  obtain rs ms1 w2 where la: "launchAll w1 ms = (rs, ms1, w2)" by (cases "launchAll w1 ms") auto
  from Cons.IH[of w1] la have "length rs = length ms" by simp
  with l la show ?case by simp
qed

lemma promiseAll_length: "promiseAll rs = Inr vs \<Longrightarrow> length vs = length rs"
  by (induction rs arbitrary: vs rule: promiseAll.induct) (auto split: sum.splits)

lemma promiseAll_all_succeed: "\<forall>r \<in> set rs. \<not> isl r \<Longrightarrow> \<exists>vs. promiseAll rs = Inr vs"
proof (induction rs)
  case Nil
  then show ?case by simp
next
  case (Cons r rs)
  then obtain vs where "promiseAll rs = Inr vs" by auto
  moreover from Cons.prems obtain v where "r = Inr v" by (cases r) auto
  ultimately show ?case by simp
qed

lemma launchNew_engine:
  "launchNew w m = (r, m1, w1) \<Longrightarrow>
     launchResult w1 = launchResult w \<and> launches w1 = Suc (launches w)
     \<and> isl r = isl (launchResult w (launches w))"
  by (auto simp: launchNew_def logEvent_def Let_def split: sum.splits)

lemma launchAll_fresh_results:
  "\<forall>i < n. \<not> isl (launchResult w (launches w + i)) \<Longrightarrow>
   \<forall>r \<in> set (fst (launchAll w (replicate n \<lparr>browser = None\<rparr>))). \<not> isl r"
proof (induction n arbitrary: w)
  case 0
  then show ?case by simp
next
  case (Suc n)
  obtain r m1 w1 where l: "launchNew w \<lparr>browser = None\<rparr> = (r, m1, w1)"
    by (cases "launchNew w \<lparr>browser = None\<rparr>") auto
  note e = launchNew_engine[OF l]
  have r: "\<not> isl r" using Suc.prems e by auto
  have "\<forall>i < n. \<not> isl (launchResult w1 (launches w1 + i))"
  proof (intro allI impI)
    fix i assume "i < n"
    hence "\<not> isl (launchResult w (launches w + Suc i))" using Suc.prems by auto
    thus "\<not> isl (launchResult w1 (launches w1 + i))" using e by simp
  qed
  from Suc.IH[OF this] r l show ?case
    by (auto simp: launch_def getBrowser_def split: prod.splits)
qed

text \<open>
  C4. A pool whose size \<open>P\<close> is at least 1 and that is not yet initialized reports,
  after a successful \<^verbatim>\<open>initialize()\<close>, total \<open>P\<close>, available \<open>P\<close> and in use 0,
  and is initialized; \<^verbatim>\<open>initialize()\<close> does succeed whenever the engine launches
  the \<open>P\<close> browsers. On an initialized pool \<^verbatim>\<open>initialize()\<close> returns at once and
  leaves the pool and the engine as they are. The constructor accepts exactly the
  sizes from 1 upwards and builds a pool that is not initialized.
\<close>

theorem initialize_stats:
  "(1 \<le> poolSize p \<and> \<not> initialized p \<and> initialize w p = (Inr (), p', w') \<longrightarrow>
      getStats p' = \<lparr>total = poolSize p, available = poolSize p, inUse = 0\<rparr>
      \<and> isInitialized p')
   \<and> (1 \<le> poolSize p \<and> \<not> initialized p
        \<and> (\<forall>i < nat (poolSize p). \<not> isl (launchResult w (launches w + i))) \<longrightarrow>
        (\<exists>q v. initialize w p = (Inr (), q, v)))
   \<and> (initialized p \<longrightarrow> initialize w p = (Inr (), p, w))
   \<and> (newBrowserPool (Some P) sandbox = Inr p0 \<longrightarrow>
        1 \<le> P \<and> poolSize p0 = P \<and> \<not> initialized p0)
   \<and> (P < 1 \<longrightarrow> newBrowserPool (Some P) sandbox = Inl (Error ''Pool size must be at least 1''))"
proof -
  let ?fresh = "replicate (nat (poolSize p)) \<lparr>browser = None\<rparr>"
  have a: "getStats p' = \<lparr>total = poolSize p, available = poolSize p, inUse = 0\<rparr> \<and> isInitialized p'"
    if size: "1 \<le> poolSize p" and ni: "\<not> initialized p" and run: "initialize w p = (Inr (), p', w')"
  proof -
    obtain results ms w1 where la: "launchAll w ?fresh = (results, ms, w1)"
      by (cases "launchAll w ?fresh") auto
    from run ni la obtain browsers where pa: "promiseAll results = Inr browsers"
      and p': "p' = p\<lparr>managers := ms, availableBrowsers := browsers, busyBrowsers := [],
                      initialized := True\<rparr>"
      by (auto simp: initialize_def split: sum.splits prod.splits)
    have "length results = nat (poolSize p)"
      using launchAll_length[of w ?fresh] la by simp
    with promiseAll_length[OF pa] have "length browsers = nat (poolSize p)" by simp
    with size p' show ?thesis by (simp add: getStats_def isInitialized_def)
  qed
  have b: "\<exists>q v. initialize w p = (Inr (), q, v)"
    if size: "1 \<le> poolSize p" and ni: "\<not> initialized p"
      and ok: "\<forall>i < nat (poolSize p). \<not> isl (launchResult w (launches w + i))"
  proof -
    obtain results ms w1 where la: "launchAll w ?fresh = (results, ms, w1)"
      by (cases "launchAll w ?fresh") auto
    from launchAll_fresh_results[OF ok] la have "\<forall>r \<in> set results. \<not> isl r" by simp
    from promiseAll_all_succeed[OF this] obtain browsers where "promiseAll results = Inr browsers"
      by blast
    with ni la show ?thesis by (simp add: initialize_def)
  qed
  have c: "initialized p \<longrightarrow> initialize w p = (Inr (), p, w)"
    by (simp add: initialize_def)
  have d: "newBrowserPool (Some P) sandbox = Inr p0 \<longrightarrow>
        1 \<le> P \<and> poolSize p0 = P \<and> \<not> initialized p0"
    by (auto simp: newBrowserPool_def Let_def split: if_splits)
  have e: "P < 1 \<longrightarrow> newBrowserPool (Some P) sandbox = Inl (Error ''Pool size must be at least 1'')"
    by (simp add: newBrowserPool_def Let_def)
  from a b c d e show ?thesis by blast
qed

theorem initialize_stats_witness:
  "1 \<le> poolSize freshPool \<and> \<not> initialized freshPool
   \<and> \<not> isl (launchResult sampleEngine (launches sampleEngine + 0))
   \<and> \<not> isl (launchResult sampleEngine (launches sampleEngine + 1))
   \<and> initialize sampleEngine freshPool
       = (Inr (), freshPool\<lparr>managers := [\<lparr>browser = Some 100\<rparr>, \<lparr>browser = Some 101\<rparr>],
                            availableBrowsers := [100, 101], initialized := True\<rparr>,
          sampleEngine\<lparr>launches := 2, events := [Launched, Launched]\<rparr>)
   \<and> getStats (freshPool\<lparr>managers := [\<lparr>browser = Some 100\<rparr>, \<lparr>browser = Some 101\<rparr>],
                           availableBrowsers := [100, 101], initialized := True\<rparr>)
       = \<lparr>total = 2, available = 2, inUse = 0\<rparr>
   \<and> initialized onePool
   \<and> initialize sampleEngine onePool = (Inr (), onePool, sampleEngine)
   \<and> newBrowserPool (Some 2) (Some False) = Inr freshPool
   \<and> (0::int) < 1
   \<and> newBrowserPool (Some 0) (Some False) = Inl (Error ''Pool size must be at least 1'')"
proof -
  let ?warm = "freshPool\<lparr>managers := [\<lparr>browser = Some 100\<rparr>, \<lparr>browser = Some 101\<rparr>],
                          availableBrowsers := [100, 101], initialized := True\<rparr>"
  let ?w2 = "sampleEngine\<lparr>launches := 2, events := [Launched, Launched]\<rparr>"
  have size: "1 \<le> poolSize freshPool" and ni: "\<not> initialized freshPool"
    by (simp_all add: freshPool_def)
  have ok0: "\<not> isl (launchResult sampleEngine (launches sampleEngine + 0))"
    and ok1: "\<not> isl (launchResult sampleEngine (launches sampleEngine + 1))"
    by (simp_all add: sampleEngine_def)
  have ok: "\<forall>i < nat (poolSize freshPool). \<not> isl (launchResult sampleEngine (launches sampleEngine + i))"
    by (simp add: sampleEngine_def)
  have run: "initialize sampleEngine freshPool = (Inr (), ?warm, ?w2)"
    by (simp add: initialize_def freshPool_def eval_nat_numeral launch_def launchNew_def
          getBrowser_def logEvent_def sampleEngine_def Let_def)
  note t = initialize_stats [of freshPool sampleEngine ?warm ?w2 2 "Some False" freshPool]
  from t size ni ok have "\<exists>q v. initialize sampleEngine freshPool = (Inr (), q, v)"
    by blast
  from t size ni run have st: "getStats ?warm
      = \<lparr>total = poolSize freshPool, available = poolSize freshPool, inUse = 0\<rparr>"
    by blast
  hence stats: "getStats ?warm = \<lparr>total = 2, available = 2, inUse = 0\<rparr>"
    by (simp add: freshPool_def)
  note u = initialize_stats [of onePool sampleEngine onePool sampleEngine 0 "Some False" freshPool]
  have i1: "initialized onePool" by (simp add: onePool_def)
  from u i1 have again: "initialize sampleEngine onePool = (Inr (), onePool, sampleEngine)"
    by blast
  have ctor: "newBrowserPool (Some 2) (Some False) = Inr freshPool"
    by (simp add: newBrowserPool_def freshPool_def)
  have z: "(0::int) < 1" by simp
  from u z have bad: "newBrowserPool (Some 0) (Some False) = Inl (Error ''Pool size must be at least 1'')"
    by blast
  show ?thesis
    by (rule conjI[OF size conjI[OF ni conjI[OF ok0 conjI[OF ok1 conjI[OF run conjI[OF stats
          conjI[OF i1 conjI[OF again conjI[OF ctor conjI[OF z bad]]]]]]]]]])
qed

subsection \<open>The pool: release\<close>

lemma setDelete_not_has: "\<not> setHas (setDelete s x) x"
  by (simp add: setHas_def setDelete_def)

text \<open>
  C3, as the code has it. \<^verbatim>\<open>release(handle)\<close> fails with a resource error for
  \<^verbatim>\<open>'release'\<close> when the pool is not initialized, and when the handle is not recorded
  as in use; in both cases the pool (available, in-use and waiting collections) and
  the engine are unchanged. A successful release with no acquirer waiting moves the
  handle from the in-use set to the available list, and releasing the same handle
  again then fails, with the pool unchanged. A release that finds an acquirer waiting
  and the handle connected calls the first waiter with the handle, which stays
  recorded as in use.
\<close>

theorem release_rejects:
  "(\<not> initialized p \<longrightarrow>
      release w self b p = (Inl (BrowserError ''Browser pool is not initialized'' ''release'' None), p, w))
   \<and> (initialized p \<and> \<not> setHas (busyBrowsers p) b \<longrightarrow>
        release w self b p
          = (Inl (BrowserError ''Browser is not from this pool or was already released''
                    ''release'' None), p, w))
   \<and> (initialized p \<and> setHas (busyBrowsers p) b \<and> waitQueue p = [] \<longrightarrow>
        release w self b p
          = (Inr None, p\<lparr>busyBrowsers := setDelete (busyBrowsers p) b,
                         availableBrowsers := availableBrowsers p @ [b]\<rparr>, w)
        \<and> release w' self' b (p\<lparr>busyBrowsers := setDelete (busyBrowsers p) b,
                                availableBrowsers := availableBrowsers p @ [b]\<rparr>)
          = (Inl (BrowserError ''Browser is not from this pool or was already released''
                    ''release'' None),
             p\<lparr>busyBrowsers := setDelete (busyBrowsers p) b,
               availableBrowsers := availableBrowsers p @ [b]\<rparr>, w'))
   \<and> (initialized p \<and> setHas (busyBrowsers p) b \<and> waitQueue p = q # qs \<and> isConnected w b \<longrightarrow>
        release w self b p
          = (Inr (Some (q, b)),
             p\<lparr>busyBrowsers := setDelete (busyBrowsers p) b @ [b], waitQueue := qs\<rparr>, w)
        \<and> setHas (setDelete (busyBrowsers p) b @ [b]) b)"
  by (simp add: release_def Let_def setDelete_not_has)
     (simp add: setAdd_def setHas_def setDelete_def)

theorem release_rejects_witness:
  "\<not> initialized freshPool
   \<and> release sampleEngine 0 7 freshPool
       = (Inl (BrowserError ''Browser pool is not initialized'' ''release'' None), freshPool, sampleEngine)
   \<and> initialized onePool \<and> \<not> setHas (busyBrowsers onePool) 7
   \<and> release sampleEngine 0 7 onePool
       = (Inl (BrowserError ''Browser is not from this pool or was already released'' ''release'' None),
          onePool, sampleEngine)
   \<and> initialized busyPool \<and> setHas (busyBrowsers busyPool) 7 \<and> waitQueue busyPool = []
   \<and> release sampleEngine 0 7 busyPool = (Inr None, onePool, sampleEngine)
   \<and> initialized contendedPool \<and> setHas (busyBrowsers contendedPool) 7
   \<and> waitQueue contendedPool = [1] \<and> isConnected sampleEngine 7
   \<and> release sampleEngine 0 7 contendedPool = (Inr (Some (1, 7)), busyPool, sampleEngine)"
proof -
  note a = release_rejects [of freshPool sampleEngine 0 7 sampleEngine 0 1 "[]"]
  note b = release_rejects [of onePool sampleEngine 0 7 sampleEngine 0 1 "[]"]
  note c = release_rejects [of busyPool sampleEngine 0 7 sampleEngine 0 1 "[]"]
  note d = release_rejects [of contendedPool sampleEngine 0 7 sampleEngine 0 1 "[]"]
  have 1: "\<not> initialized freshPool" by (simp add: freshPool_def)
  from a 1 have 2: "release sampleEngine 0 7 freshPool
       = (Inl (BrowserError ''Browser pool is not initialized'' ''release'' None), freshPool, sampleEngine)"
    by blast
  have 3: "initialized onePool \<and> \<not> setHas (busyBrowsers onePool) 7"
    by (simp add: onePool_def setHas_def)
  from b 3 have 4: "release sampleEngine 0 7 onePool
       = (Inl (BrowserError ''Browser is not from this pool or was already released'' ''release'' None),
          onePool, sampleEngine)"
    by blast
  have 5: "initialized busyPool \<and> setHas (busyBrowsers busyPool) 7 \<and> waitQueue busyPool = []"
    by (simp add: busyPool_def onePool_def setHas_def)
  have restored: "busyPool\<lparr>busyBrowsers := setDelete (busyBrowsers busyPool) 7,
                       availableBrowsers := availableBrowsers busyPool @ [7]\<rparr> = onePool"
    by (simp add: busyPool_def onePool_def setDelete_def)
  from c 5 have "release sampleEngine 0 7 busyPool
       = (Inr None, busyPool\<lparr>busyBrowsers := setDelete (busyBrowsers busyPool) 7,
                              availableBrowsers := availableBrowsers busyPool @ [7]\<rparr>, sampleEngine)"
    by blast
  hence 6: "release sampleEngine 0 7 busyPool = (Inr None, onePool, sampleEngine)"
    unfolding restored .
  have 7: "initialized contendedPool \<and> setHas (busyBrowsers contendedPool) 7
      \<and> waitQueue contendedPool = [1] \<and> isConnected sampleEngine 7"
    by (simp add: contendedPool_def busyPool_def onePool_def setHas_def sampleEngine_def)
  have handed: "contendedPool\<lparr>busyBrowsers := setDelete (busyBrowsers contendedPool) 7 @ [7],
                               waitQueue := []\<rparr> = busyPool"
    by (simp add: contendedPool_def busyPool_def onePool_def setDelete_def)
  from d 7 have "release sampleEngine 0 7 contendedPool
       = (Inr (Some (1, 7)),
          contendedPool\<lparr>busyBrowsers := setDelete (busyBrowsers contendedPool) 7 @ [7],
                          waitQueue := []\<rparr>, sampleEngine)"
    by blast
  hence 8: "release sampleEngine 0 7 contendedPool = (Inr (Some (1, 7)), busyPool, sampleEngine)"
    unfolding handed .
  from 1 2 3 4 5 6 7 8 show ?thesis by blast
qed

text \<open>
  The claim as stated ("after one successful release, releasing the same handle again
  fails") does not hold when an acquirer is waiting at the first release: the handle is
  handed to the waiter and recorded as in use again, so the second release succeeds.
  The package's own test "should queue acquisition when pool is exhausted" releases
  the same handle twice in this way.
\<close>

theorem release_twice_counterexample:
  "release sampleEngine 0 7 contendedPool = (Inr (Some (1, 7)), busyPool, sampleEngine)
   \<and> release sampleEngine 0 7 busyPool = (Inr None, onePool, sampleEngine)"
  by (simp add: release_def contendedPool_def busyPool_def onePool_def sampleEngine_def
        setHas_def setDelete_def setAdd_def Let_def)

subsection \<open>One browser: restart\<close>

text \<open>
  C6, as the code has it. \<^verbatim>\<open>restart()\<close> first closes the current handle. If the
  graceful close raises, the handle reference is cleared, \<^verbatim>\<open>restart()\<close> fails with
  the browser-operation error for \<^verbatim>\<open>'close'\<close> that carries the cause, and no relaunch
  is attempted (the engine is left as it was). If the close succeeds, or there is no
  handle to close, a new browser is launched.
\<close>

theorem restart_close_failure:
  "(getBrowser w m = Some b \<and> closeRejects w b = Some error \<longrightarrow>
      restart w m
        = (Inl (BrowserError (''Failed to close browser: '' @ errorMessage error) ''close''
                  (causeOf error)), m\<lparr>browser := None\<rparr>, w))
   \<and> (getBrowser w m = Some b \<and> closeRejects w b = None \<longrightarrow>
        restart w m
          = launchNew (logEvent (Closed b)
                         (w\<lparr>isConnected := (isConnected w)(b := False),
                            disconnectedEmitted := (disconnectedEmitted w)(b := True)\<rparr>))
              (m\<lparr>browser := None\<rparr>))
   \<and> (getBrowser w m = None \<longrightarrow> restart w m = launchNew w m)"
  by (auto simp: restart_def close_def launch_def getBrowser_def logEvent_def split: option.splits)

theorem restart_close_failure_witness:
  "getBrowser stuckEngine \<lparr>browser = Some 7\<rparr> = Some 7
   \<and> closeRejects stuckEngine 7 = Some (Error ''Target closed'')
   \<and> restart stuckEngine \<lparr>browser = Some 7\<rparr>
       = (Inl (BrowserError ''Failed to close browser: Target closed'' ''close''
                 (Some (Error ''Target closed''))), \<lparr>browser = None\<rparr>, stuckEngine)
   \<and> getBrowser sampleEngine \<lparr>browser = Some 7\<rparr> = Some 7
   \<and> closeRejects sampleEngine 7 = None
   \<and> restart sampleEngine \<lparr>browser = Some 7\<rparr>
       = (Inr 100, \<lparr>browser = Some 100\<rparr>,
          sampleEngine\<lparr>isConnected := (isConnected sampleEngine)(7 := False),
                       disconnectedEmitted := (disconnectedEmitted sampleEngine)(7 := True),
                       launches := 1, events := [Closed 7, Launched]\<rparr>)
   \<and> getBrowser sampleEngine \<lparr>browser = None\<rparr> = None
   \<and> restart sampleEngine \<lparr>browser = None\<rparr>
       = (Inr 100, \<lparr>browser = Some 100\<rparr>, sampleEngine\<lparr>launches := 1, events := [Launched]\<rparr>)"
proof -
  note a = restart_close_failure [of stuckEngine "\<lparr>browser = Some 7\<rparr>" 7 "Error ''Target closed''"]
  note b = restart_close_failure [of sampleEngine "\<lparr>browser = Some 7\<rparr>" 7 "Error ''Target closed''"]
  note c = restart_close_failure [of sampleEngine "\<lparr>browser = None\<rparr>" 7 "Error ''Target closed''"]
  have 1: "getBrowser stuckEngine \<lparr>browser = Some 7\<rparr> = Some 7"
    and 2: "closeRejects stuckEngine 7 = Some (Error ''Target closed'')"
    by (simp_all add: getBrowser_def stuckEngine_def sampleEngine_def)
  from a 1 2 have "restart stuckEngine \<lparr>browser = Some 7\<rparr>
       = (Inl (BrowserError (''Failed to close browser: '' @ errorMessage (Error ''Target closed''))
                 ''close'' (causeOf (Error ''Target closed''))),
          \<lparr>browser = Some 7\<rparr>\<lparr>browser := None\<rparr>, stuckEngine)"
    by blast
  hence 3: "restart stuckEngine \<lparr>browser = Some 7\<rparr>
       = (Inl (BrowserError ''Failed to close browser: Target closed'' ''close''
                 (Some (Error ''Target closed''))), \<lparr>browser = None\<rparr>, stuckEngine)"
    by (simp add: causeOf_def)
  have 4: "getBrowser sampleEngine \<lparr>browser = Some 7\<rparr> = Some 7"
    and 5: "closeRejects sampleEngine 7 = None"
    by (simp_all add: getBrowser_def sampleEngine_def)
  from b 4 5 have "restart sampleEngine \<lparr>browser = Some 7\<rparr>
       = launchNew (logEvent (Closed 7)
                      (sampleEngine\<lparr>isConnected := (isConnected sampleEngine)(7 := False),
                                   disconnectedEmitted := (disconnectedEmitted sampleEngine)(7 := True)\<rparr>))
           (\<lparr>browser = Some 7\<rparr>\<lparr>browser := None\<rparr>)"
    by blast
  hence 6: "restart sampleEngine \<lparr>browser = Some 7\<rparr>
       = (Inr 100, \<lparr>browser = Some 100\<rparr>,
          sampleEngine\<lparr>isConnected := (isConnected sampleEngine)(7 := False),
                       disconnectedEmitted := (disconnectedEmitted sampleEngine)(7 := True),
                       launches := 1, events := [Closed 7, Launched]\<rparr>)"
    by (simp add: launchNew_def logEvent_def sampleEngine_def Let_def)
  have 7: "getBrowser sampleEngine \<lparr>browser = None\<rparr> = None"
    by (simp add: getBrowser_def)
  from c 7 have "restart sampleEngine \<lparr>browser = None\<rparr> = launchNew sampleEngine \<lparr>browser = None\<rparr>"
    by blast
  hence 8: "restart sampleEngine \<lparr>browser = None\<rparr>
       = (Inr 100, \<lparr>browser = Some 100\<rparr>, sampleEngine\<lparr>launches := 1, events := [Launched]\<rparr>)"
    by (simp add: launchNew_def logEvent_def sampleEngine_def Let_def)
  show ?thesis
    by (rule conjI[OF 1 conjI[OF 2 conjI[OF 3 conjI[OF 4 conjI[OF 5 conjI[OF 6 conjI[OF 7 8]]]]]]])
qed

text \<open>
  The claim as stated (a failing close is ignored and the relaunch still happens) fails
  for a manager whose browser rejects \<^verbatim>\<open>close()\<close>: \<^verbatim>\<open>restart()\<close> fails with the close
  error and the engine records no launch.
\<close>

theorem restart_ignores_close_error_counterexample:
  "restart stuckEngine \<lparr>browser = Some 7\<rparr>
       = (Inl (BrowserError ''Failed to close browser: Target closed'' ''close''
                 (Some (Error ''Target closed''))), \<lparr>browser = None\<rparr>, stuckEngine)
   \<and> launches stuckEngine = 0 \<and> events stuckEngine = []"
  by (simp add: restart_def close_def getBrowser_def stuckEngine_def sampleEngine_def causeOf_def)

subsection \<open>The reader: calls on a pool that is not initialized\<close>

text \<open>
  C10. On a reader whose pool is not initialized, \<^verbatim>\<open>fetchAndParse\<close> fails with the
  automation-resource error for \<^verbatim>\<open>'fetchAndParse'\<close> and leaves the reader (its pool)
  and the engine exactly as they were: no retry, no sleep, no acquisition, no
  navigation. The pool of a newly constructed reader is not initialized, and neither
  is the pool after \<^verbatim>\<open>close()\<close>.
\<close>

theorem fetchAndParse_uninitialized:
  "(\<not> isInitialized (browserPool reader) \<longrightarrow>
      fetchAndParse parseString parseItem validate now who w reader feedUrl
        = (Inl (BrowserError ''Browser pool not initialized. Call initialize() first.''
                  ''fetchAndParse'' None), reader, w))
   \<and> (newRssReader cfg = Inr reader0 \<longrightarrow> \<not> isInitialized (browserPool reader0))
   \<and> \<not> isInitialized (browserPool (fst (readerClose w reader)))"
proof -
  have a: "\<not> isInitialized (browserPool reader) \<longrightarrow>
      fetchAndParse parseString parseItem validate now who w reader feedUrl
        = (Inl (BrowserError ''Browser pool not initialized. Call initialize() first.''
                  ''fetchAndParse'' None), reader, w)"
    by (simp add: fetchAndParse_def)
  have b: "newRssReader cfg = Inr reader0 \<longrightarrow> \<not> isInitialized (browserPool reader0)"
    by (auto simp: newRssReader_def newBrowserPool_def isInitialized_def Let_def
          split: sum.splits if_splits)
  have c: "\<not> isInitialized (browserPool (fst (readerClose w reader)))"
    by (auto simp: readerClose_def closePool_def cleanup_def isInitialized_def split: prod.splits)
  from a b c show ?thesis by blast
qed

theorem fetchAndParse_uninitialized_witness:
  "\<not> isInitialized (browserPool closedReader)
   \<and> fetchAndParse emptyFeedParser titleOnlyParseItem acceptingValidate 0 0 sampleEngine closedReader
        ''https://example.com/feed''
       = (Inl (BrowserError ''Browser pool not initialized. Call initialize() first.''
                 ''fetchAndParse'' None), closedReader, sampleEngine)
   \<and> newRssReader defaultConfig = Inr closedReader
   \<and> \<not> isInitialized (browserPool (fst (readerClose sampleEngine sampleReader)))"
proof -
  note t = fetchAndParse_uninitialized [where reader = closedReader and parseString = emptyFeedParser
             and parseItem = titleOnlyParseItem and validate = acceptingValidate and now = 0
             and who = 0 and w = sampleEngine and feedUrl = "''https://example.com/feed''"]
  note u = fetchAndParse_uninitialized [where reader = sampleReader and w = sampleEngine]
  have 1: "\<not> isInitialized (browserPool closedReader)"
    by (simp add: closedReader_def freshPool_def isInitialized_def)
  from t 1 have 2: "fetchAndParse emptyFeedParser titleOnlyParseItem acceptingValidate 0 0 sampleEngine
        closedReader ''https://example.com/feed''
       = (Inl (BrowserError ''Browser pool not initialized. Call initialize() first.''
                 ''fetchAndParse'' None), closedReader, sampleEngine)"
    by blast
  have 3: "newRssReader defaultConfig = Inr closedReader"
    by (simp add: newRssReader_def newBrowserPool_def defaultConfig_def closedReader_def freshPool_def)
  from u have 4: "\<not> isInitialized (browserPool (fst (readerClose sampleEngine sampleReader)))"
    by blast
  from 1 2 3 4 show ?thesis by blast
qed

subsection \<open>The reader: URLs that are not http or https\<close>























end
